(* ===== verification/Prelude.thy ===== *)
theory Prelude
  imports Main "HOL-Library.AList" "HOL-Library.Sublist" "HOL-Library.Code_Target_Numeral"
begin

text \<open>
  Shared vocabulary of the development: the collections of evaluation rules the
  component theories register into, the string helpers every component uses
  (joining with a separator, byte characters written by code), and generic
  lemmas on lists and prefixes that the parser, the trimming functions and the
  controller proofs share.
\<close>

named_theorems js_simps "evaluation rules of the JavaScript value model"
named_theorems chat_simps "definitions that evaluate a run of the chat controller"
named_theorems play_simps "definitions that evaluate a run of the playback controller"

type_synonym byte_string = "char list"

abbreviation dquote :: char where "dquote \<equiv> CHR 0x22"
abbreviation bslash :: char where "bslash \<equiv> CHR 0x5C"
abbreviation newline :: char where "newline \<equiv> CHR 0x0A"

text \<open>\<open>Array.prototype.join(sep)\<close> on a list of strings.\<close>

fun join_with :: "string \<Rightarrow> string list \<Rightarrow> string" where
  "join_with sep [] = []"
| "join_with sep [x] = x"
| "join_with sep (x # y # zs) = x @ sep @ join_with sep (y # zs)"

subsection \<open>Decimal digits\<close>

definition digit_char :: "nat \<Rightarrow> char" where
  "digit_char d = char_of (48 + d)"

definition is_digit :: "char \<Rightarrow> bool" where
  "is_digit c \<longleftrightarrow> 48 \<le> (of_char c :: nat) \<and> (of_char c :: nat) \<le> 57"

definition digit_val :: "char \<Rightarrow> nat" where
  "digit_val c = of_char c - 48"

definition digits_val :: "string \<Rightarrow> nat" where
  "digits_val ds = foldl (\<lambda>n c. 10 * n + digit_val c) 0 ds"

text \<open>The decimal representation of a natural number, most significant digit first.\<close>

fun nat_to_digits :: "nat \<Rightarrow> string" where
  "nat_to_digits n = (if n < 10 then [digit_char n] else nat_to_digits (n div 10) @ [digit_char (n mod 10)])"

declare nat_to_digits.simps [simp del]

text \<open>Removing the \<open>i\<close>-th element: an answered request leaves the list of
  requests in flight.\<close>

definition remove_nth :: "nat \<Rightarrow> 'a list \<Rightarrow> 'a list" where
  "remove_nth i xs = take i xs @ drop (Suc i) xs"

subsection \<open>Lemmas on lists and strings\<close>

lemma join_with_Cons [simp]:
  "join_with sep (x # xs) = (if xs = [] then x else x @ sep @ join_with sep xs)"
  by (cases xs) simp_all

lemma distinct_all_eq_length:
  assumes "distinct xs" "\<forall>x\<in>set xs. x = a"
  shows "length xs \<le> 1"
proof -
  have "set xs \<subseteq> {a}" using assms(2) by auto
  then have "card (set xs) \<le> 1" using card_mono [of "{a}" "set xs"] by simp
  with assms(1) show ?thesis by (simp add: distinct_card)
qed

subsection \<open>Prefixes and suffixes of strings\<close>

lemma find_Some_in_set [intro]:
  "find P xs = Some w \<Longrightarrow> w \<in> set xs"
  by (induction xs) (auto split: if_splits)

lemma find_Some_holds:
  "find P xs = Some w \<Longrightarrow> P w"
  by (induction xs) (auto split: if_splits)

lemma suffix_Cons_hd:
  assumes "suffix w (x # xs)" "x \<notin> set w"
  shows "suffix w xs"
  using assms by (auto simp: suffix_def Cons_eq_append_conv)

lemma length_dropWhile_Suc_le [simp]: "length (dropWhile P xs) \<le> Suc (length xs)"
  using length_dropWhile_le [of P xs] by simp

lemma length_takeWhile_Suc_le [simp]: "length (takeWhile P xs) \<le> Suc (length xs)"
  using length_takeWhile_le [of P xs] by simp

lemma nat_to_digits_nonempty [simp]: "nat_to_digits n \<noteq> []"
  by (subst nat_to_digits.simps) simp

end
