(* ===== verification/JsValue.thy ===== *)
theory JsValue
  imports Prelude
begin

text \<open>
  The JavaScript values the chat component handles and the built-in operations
  its code applies to them: \<open>typeof\<close>, truthiness in an \<open>if\<close>, property
  read (\<open>o.message\<close>, which throws a \<open>TypeError\<close> on \<open>null\<close> and
  \<open>undefined\<close>), \<open>String(v)\<close> and \<open>JSON.stringify(v)\<close>. These are
  language built-ins, not code of the repository; they are modelled from the
  ECMAScript specification so that the handlers of \<open>login.component.ts\<close> can be
  translated line by line.

  Strings are byte strings (the UTF-8 encoding of the text). Numbers are exact
  decimals \<open>JNum m e\<close> standing for \<open>m * 10 ^ e\<close>: a value parsed from JSON
  with at most 15 significant digits and an exponent inside the range of
  doubles is exactly the double JavaScript computes, and \<open>Number::toString\<close>
  prints it as below. Objects are association lists in insertion order.
\<close>

datatype jsval =
    JUndefined
  | JNull
  | JBool bool
  | JNum int int
  | JStr string
  | JArr "jsval list"
  | JObj "(string \<times> jsval) list"

datatype js_error = TypeError | SyntaxError

subsection \<open>typeof, truthiness, property read\<close>

fun typeof :: "jsval \<Rightarrow> string" where
  "typeof JUndefined = ''undefined''"
| "typeof JNull = ''object''"
| "typeof (JBool _) = ''boolean''"
| "typeof (JNum _ _) = ''number''"
| "typeof (JStr _) = ''string''"
| "typeof (JArr _) = ''object''"
| "typeof (JObj _) = ''object''"

text \<open>ToBoolean: the test an \<open>if (v)\<close> or a \<open>!v\<close> applies.\<close>

fun truthy :: "jsval \<Rightarrow> bool" where
  "truthy JUndefined = False"
| "truthy JNull = False"
| "truthy (JBool b) = b"
| "truthy (JNum m _) = (m \<noteq> 0)"
| "truthy (JStr s) = (s \<noteq> [])"
| "truthy (JArr _) = True"
| "truthy (JObj _) = True"

definition is_nullish :: "jsval \<Rightarrow> bool" where
  "is_nullish v \<longleftrightarrow> v = JUndefined \<or> v = JNull"

text \<open>
  Reading an own data property. Only objects have the properties the code reads
  (\<open>message\<close>, \<open>response\<close>, \<open>mode\<close>); no prototype of a primitive, an
  array or a plain object defines them, so every other value yields
  \<open>undefined\<close>.
\<close>

fun obj_get :: "jsval \<Rightarrow> string \<Rightarrow> jsval" where
  "obj_get (JObj kvs) k = (case map_of kvs k of Some v \<Rightarrow> v | None \<Rightarrow> JUndefined)"
| "obj_get _ k = JUndefined"

definition get_prop :: "jsval \<Rightarrow> string \<Rightarrow> js_error + jsval" where
  "get_prop v k = (if is_nullish v then Inl TypeError else Inr (obj_get v k))"

subsection \<open>Numbers: Number::toString\<close>

text \<open>Strip trailing zeros of the mantissa: the shortest decimal of the value.\<close>

function norm_dec :: "int \<Rightarrow> int \<Rightarrow> int \<times> int" where
  "norm_dec m e =
     (if m = 0 then (0, 0) else if m mod 10 = 0 then norm_dec (m div 10) (e + 1) else (m, e))"
  by pat_completeness auto
termination
  by (relation "measure (\<lambda>(m, e). nat \<bar>m\<bar>)") auto

declare norm_dec.simps [simp del]

text \<open>
  ECMAScript Number::toString for a positive value whose shortest decimal has the
  digits \<open>s\<close> (\<open>k\<close> of them) and exponent \<open>e\<close>; \<open>n = e + k\<close> is the
  position of the decimal point.
\<close>

definition num_to_string_pos :: "nat \<Rightarrow> int \<Rightarrow> string" where
  "num_to_string_pos m e =
     (let s = nat_to_digits m; k = int (length s); n = e + k in
      if k \<le> n \<and> n \<le> 21 then s @ replicate (nat (n - k)) (CHR ''0'')
      else if 0 < n \<and> n \<le> 21 then take (nat n) s @ ''.'' @ drop (nat n) s
      else if -6 < n \<and> n \<le> 0 then ''0.'' @ replicate (nat (- n)) (CHR ''0'') @ s
      else
        (if k = 1 then s else take 1 s @ ''.'' @ drop 1 s) @ ''e'' @
        (if 0 \<le> n - 1 then ''+'' else ''-'') @ nat_to_digits (nat \<bar>n - 1\<bar>))"

definition number_to_string :: "int \<Rightarrow> int \<Rightarrow> string" where
  "number_to_string m e =
     (case norm_dec m e of (m', e') \<Rightarrow>
        if m' = 0 then ''0''
        else if m' < 0 then ''-'' @ num_to_string_pos (nat (- m')) e'
        else num_to_string_pos (nat m') e')"

subsection \<open>String(v)\<close>

text \<open>
  ToString, as \<open>String(v)\<close>, a template literal and \<open>FormData.append\<close>
  apply it. An array is joined with commas, \<open>null\<close> and \<open>undefined\<close>
  elements giving the empty string.
\<close>

fun js_String :: "jsval \<Rightarrow> string" where
  "js_String JUndefined = ''undefined''"
| "js_String JNull = ''null''"
| "js_String (JBool b) = (if b then ''true'' else ''false'')"
| "js_String (JNum m e) = number_to_string m e"
| "js_String (JStr s) = s"
| "js_String (JArr xs) = join_with '','' (map (\<lambda>v. (if is_nullish v then [] else js_String v)) xs)"
| "js_String (JObj _) = ''[object Object]''"

subsection \<open>JSON.stringify\<close>

definition hex_digit :: "nat \<Rightarrow> char" where
  "hex_digit d = (if d < 10 then char_of (48 + d) else char_of (87 + d))"

text \<open>QuoteJSONString, one code unit at a time.\<close>

definition json_escape_char :: "char \<Rightarrow> string" where
  "json_escape_char c =
     (if c = CHR 0x08 then [bslash, CHR ''b'']
      else if c = CHR 0x09 then [bslash, CHR ''t'']
      else if c = CHR 0x0A then [bslash, CHR ''n'']
      else if c = CHR 0x0C then [bslash, CHR ''f'']
      else if c = CHR 0x0D then [bslash, CHR ''r'']
      else if c = dquote then [bslash, dquote]
      else if c = bslash then [bslash, bslash]
      else if (of_char c :: nat) < 32 then
        [bslash, CHR ''u'', CHR ''0'', CHR ''0'', hex_digit (of_char c div 16), hex_digit (of_char c mod 16)]
      else [c])"

definition json_quote :: "string \<Rightarrow> string" where
  "json_quote s = [dquote] @ concat (map json_escape_char s) @ [dquote]"

text \<open>
  OrdinaryOwnPropertyKeys: keys that are array indices come first in ascending
  numeric order, the other keys follow in insertion order.
\<close>

definition is_array_index :: "string \<Rightarrow> bool" where
  "is_array_index k \<longleftrightarrow>
     k \<noteq> [] \<and> list_all is_digit k \<and> (k = ''0'' \<or> hd k \<noteq> CHR ''0'') \<and> digits_val k < 4294967295"

definition obj_order :: "(string \<times> 'a) list \<Rightarrow> (string \<times> 'a) list" where
  "obj_order kvs =
     sort_key (\<lambda>(k, _). digits_val k) (filter (\<lambda>(k, _). is_array_index k) kvs) @
     filter (\<lambda>(k, _). \<not> is_array_index k) kvs"

definition obj_members :: "(string \<times> string option) list \<Rightarrow> string list" where
  "obj_members kss =
     concat (map (\<lambda>(k, so). (case so of None \<Rightarrow> [] | Some t \<Rightarrow> [json_quote k @ '':'' @ t])) (obj_order kss))"

text \<open>
  SerializeJSONProperty: \<open>None\<close> is the \<open>undefined\<close> result (the value is
  skipped in an object and written \<open>null\<close> in an array).
\<close>

fun json_ser :: "jsval \<Rightarrow> string option" where
  "json_ser JUndefined = None"
| "json_ser JNull = Some ''null''"
| "json_ser (JBool b) = Some (if b then ''true'' else ''false'')"
| "json_ser (JNum m e) = Some (number_to_string m e)"
| "json_ser (JStr s) = Some (json_quote s)"
| "json_ser (JArr xs) =
     Some (''['' @ join_with '','' (map (\<lambda>v. (case json_ser v of None \<Rightarrow> ''null'' | Some t \<Rightarrow> t)) xs) @ '']'')"
| "json_ser (JObj kvs) =
     Some (''{'' @ join_with '','' (obj_members (map (\<lambda>(k, v). (k, json_ser v)) kvs)) @ ''}'')"

definition JSON_stringify :: "jsval \<Rightarrow> jsval" where
  "JSON_stringify v = (case json_ser v of None \<Rightarrow> JUndefined | Some t \<Rightarrow> JStr t)"

subsection \<open>Values that JSON can produce\<close>

text \<open>
  What \<open>JSON.parse\<close> returns: no \<open>undefined\<close> anywhere, objects with
  distinct keys, numbers in shortest form.
\<close>

fun json_wf :: "jsval \<Rightarrow> bool" where
  "json_wf JUndefined = False"
| "json_wf JNull = True"
| "json_wf (JBool _) = True"
| "json_wf (JNum m e) = (norm_dec m e = (m, e))"
| "json_wf (JStr _) = True"
| "json_wf (JArr xs) = list_all json_wf xs"
| "json_wf (JObj kvs) = (distinct (map fst kvs) \<and> list_all (\<lambda>(k, v). json_wf v) kvs)"


declare is_nullish_def [js_simps] get_prop_def [js_simps]

end
