(* ===== verification/JsonParse.thy ===== *)
theory JsonParse
  imports JsValue
begin

text \<open>
  \<open>JSON.parse\<close> (ECMA-404 grammar, ECMAScript JSON.parse) as a recursive-descent
  parser over byte strings. The parser threads the unread input; a nested value is
  parsed by a call on a strictly shorter input, but that is a property of the
  results, not of the arguments, so the recursion carries fuel. \<open>NoFuel\<close> is
  distinct from a syntax error, and \<open>parse_fuel_enough\<close> shows that fuel one
  more than the length of the input never runs out: \<open>JSON_parse\<close> always
  returns. A duplicate key keeps its first position and takes the last value
  (\<open>AList.update\<close>), as \<open>CreateDataProperty\<close> does. A \<open>\u\<close> escape
  yields the UTF-8 encoding of its code unit.
\<close>

datatype 'a presult = Fail | Ok 'a string | NoFuel

definition json_ws :: "char \<Rightarrow> bool" where
  "json_ws c \<longleftrightarrow> c = CHR 0x20 \<or> c = CHR 0x09 \<or> c = CHR 0x0A \<or> c = CHR 0x0D"

definition skip_ws :: "string \<Rightarrow> string" where
  "skip_ws s = dropWhile json_ws s"

subsection \<open>Strings\<close>

definition hex_val :: "char \<Rightarrow> nat option" where
  "hex_val c =
     (let n = (of_char c :: nat) in
      if 48 \<le> n \<and> n \<le> 57 then Some (n - 48)
      else if 97 \<le> n \<and> n \<le> 102 then Some (n - 87)
      else if 65 \<le> n \<and> n \<le> 70 then Some (n - 55)
      else None)"

fun hex4_val :: "string \<Rightarrow> nat option" where
  "hex4_val [a, b, c, d] =
     (case (hex_val a, hex_val b, hex_val c, hex_val d) of
        (Some w, Some x, Some y, Some z) \<Rightarrow> Some (((w * 16 + x) * 16 + y) * 16 + z)
      | _ \<Rightarrow> None)"
| "hex4_val _ = None"

text \<open>The UTF-8 bytes of a UTF-16 code unit.\<close>

definition utf8_unit :: "nat \<Rightarrow> string" where
  "utf8_unit u =
     (if u < 128 then [char_of u]
      else if u < 2048 then [char_of (192 + u div 64), char_of (128 + u mod 64)]
      else [char_of (224 + u div 4096), char_of (128 + (u div 64) mod 64), char_of (128 + u mod 64)])"

definition prepend_str :: "string \<Rightarrow> (string \<times> string) option \<Rightarrow> (string \<times> string) option" where
  "prepend_str p r = map_option (\<lambda>(t, rest). (p @ t, rest)) r"

text \<open>The escape sequence after a backslash: the bytes it stands for and the
  input after it.\<close>

definition unescape :: "string \<Rightarrow> (string \<times> string) option" where
  "unescape cs =
     (case cs of
        [] \<Rightarrow> None
      | e # r \<Rightarrow>
          if e = dquote \<or> e = bslash \<or> e = CHR ''/'' then Some ([e], r)
          else if e = CHR ''b'' then Some ([CHR 0x08], r)
          else if e = CHR ''f'' then Some ([CHR 0x0C], r)
          else if e = CHR ''n'' then Some ([CHR 0x0A], r)
          else if e = CHR ''r'' then Some ([CHR 0x0D], r)
          else if e = CHR ''t'' then Some ([CHR 0x09], r)
          else if e = CHR ''u'' then
            (case hex4_val (take 4 r) of
               None \<Rightarrow> None
             | Some u \<Rightarrow> Some (utf8_unit u, drop 4 r))
          else None)"

text \<open>The characters of a string literal after its opening quote, up to and
  including the closing quote; a raw control character is a syntax error.\<close>

function parse_str_body :: "string \<Rightarrow> (string \<times> string) option" where
  "parse_str_body [] = None"
| "parse_str_body (c # cs) =
     (if c = dquote then Some ([], cs)
      else if c = bslash then
        (case unescape cs of
           None \<Rightarrow> None
         | Some (p, r) \<Rightarrow> prepend_str p (parse_str_body r))
      else if (of_char c :: nat) < 32 then None
      else prepend_str [c] (parse_str_body cs))"
  by pat_completeness auto
termination
  by (relation "measure length") (auto simp: unescape_def split: list.splits if_splits option.splits)

subsection \<open>Numbers and literals\<close>

definition parse_frac :: "string \<Rightarrow> (string \<times> string) option" where
  "parse_frac s =
     (case s of
        c # r \<Rightarrow>
          if c = CHR ''.'' then
            (let fp = takeWhile is_digit r in
             if fp = [] then None else Some (fp, dropWhile is_digit r))
          else Some ([], s)
      | [] \<Rightarrow> Some ([], []))"

definition parse_exp :: "string \<Rightarrow> (int \<times> string) option" where
  "parse_exp s =
     (case s of
        c # r \<Rightarrow>
          if c = CHR ''e'' \<or> c = CHR ''E'' then
            (let (sg, r1) =
               (case r of
                  x # r' \<Rightarrow> if x = CHR ''+'' then (1, r') else if x = CHR ''-'' then (-1, r') else (1, r)
                | [] \<Rightarrow> (1, r));
                 ds = takeWhile is_digit r1 in
             if ds = [] then None else Some (sg * int (digits_val ds), dropWhile is_digit r1))
          else Some (0, s)
      | [] \<Rightarrow> Some (0, []))"

text \<open>\<open>-? (0 | [1-9][0-9]* ) (. [0-9]+)? ([eE] [+-]? [0-9]+)?\<close>: the sign,
  the integer digits (after a leading \<open>0\<close> the integer part ends, so \<open>01\<close>
  leaves \<open>1\<close> unread), the fraction and the exponent.\<close>

definition parse_sign :: "string \<Rightarrow> bool \<times> string" where
  "parse_sign s = (case s of c # r \<Rightarrow> if c = CHR ''-'' then (True, r) else (False, s) | [] \<Rightarrow> (False, s))"

definition parse_int_digits :: "string \<Rightarrow> (string \<times> string) option" where
  "parse_int_digits s =
     (case s of
        [] \<Rightarrow> None
      | d # r \<Rightarrow>
          if \<not> is_digit d then None
          else if d = CHR ''0'' then Some ([d], r)
          else Some (d # takeWhile is_digit r, dropWhile is_digit r))"

definition parse_number :: "string \<Rightarrow> (jsval \<times> string) option" where
  "parse_number s =
     (case parse_sign s of
        (neg, s1) \<Rightarrow>
          (case parse_int_digits s1 of
             None \<Rightarrow> None
           | Some (ip, s2) \<Rightarrow>
               (case parse_frac s2 of
                  None \<Rightarrow> None
                | Some (fp, s3) \<Rightarrow>
                    (case parse_exp s3 of
                       None \<Rightarrow> None
                     | Some (ex, s4) \<Rightarrow>
                         (let m = int (digits_val (ip @ fp)) in
                          case norm_dec (if neg then - m else m) (ex - int (length fp)) of
                            (m', e') \<Rightarrow> Some (JNum m' e', s4))))))"

definition parse_lit :: "string \<Rightarrow> (jsval \<times> string) option" where
  "parse_lit s =
     (if prefix ''true'' s then Some (JBool True, drop 4 s)
      else if prefix ''false'' s then Some (JBool False, drop 5 s)
      else if prefix ''null'' s then Some (JNull, drop 4 s)
      else None)"

subsection \<open>Values, members, elements\<close>

text \<open>
  \<open>parse_value\<close> reads one value after optional whitespace. \<open>parse_members\<close>
  starts at the quote of a member name; \<open>parse_elements\<close> starts after an
  element and reads \<open>, value\<close> until the closing bracket.
\<close>

fun parse_value :: "nat \<Rightarrow> string \<Rightarrow> jsval presult"
and parse_members :: "nat \<Rightarrow> (string \<times> jsval) list \<Rightarrow> string \<Rightarrow> jsval presult"
and parse_elements :: "nat \<Rightarrow> jsval list \<Rightarrow> string \<Rightarrow> jsval presult" where
  "parse_value 0 s = NoFuel"
| "parse_value (Suc n) s =
     (case skip_ws s of
        [] \<Rightarrow> Fail
      | c # r \<Rightarrow>
          if c = CHR ''{'' then
            (case skip_ws r of
               [] \<Rightarrow> Fail
             | c' # r' \<Rightarrow> if c' = CHR ''}'' then Ok (JObj []) r' else parse_members n [] (skip_ws r))
          else if c = CHR ''['' then
            (case skip_ws r of
               [] \<Rightarrow> Fail
             | c' # r' \<Rightarrow>
                 if c' = CHR '']'' then Ok (JArr []) r'
                 else (case parse_value n r of
                         Ok v r'' \<Rightarrow> parse_elements n [v] r''
                       | Fail \<Rightarrow> Fail
                       | NoFuel \<Rightarrow> NoFuel))
          else if c = dquote then
            (case parse_str_body r of None \<Rightarrow> Fail | Some (t, r') \<Rightarrow> Ok (JStr t) r')
          else if c = CHR ''-'' \<or> is_digit c then
            (case parse_number (c # r) of None \<Rightarrow> Fail | Some (v, r') \<Rightarrow> Ok v r')
          else
            (case parse_lit (c # r) of None \<Rightarrow> Fail | Some (v, r') \<Rightarrow> Ok v r'))"
| "parse_members 0 acc s = NoFuel"
| "parse_members (Suc n) acc s =
     (case s of
        [] \<Rightarrow> Fail
      | c # r \<Rightarrow>
          if c \<noteq> dquote then Fail
          else
            (case parse_str_body r of
               None \<Rightarrow> Fail
             | Some (k, r1) \<Rightarrow>
                 (case skip_ws r1 of
                    [] \<Rightarrow> Fail
                  | c1 # r2 \<Rightarrow>
                      if c1 \<noteq> CHR '':'' then Fail
                      else
                        (case parse_value n r2 of
                           Ok v r3 \<Rightarrow>
                             (case skip_ws r3 of
                                [] \<Rightarrow> Fail
                              | c3 # r4 \<Rightarrow>
                                  if c3 = CHR '','' then parse_members n (AList.update k v acc) (skip_ws r4)
                                  else if c3 = CHR ''}'' then Ok (JObj (AList.update k v acc)) r4
                                  else Fail)
                         | Fail \<Rightarrow> Fail
                         | NoFuel \<Rightarrow> NoFuel))))"
| "parse_elements 0 acc s = NoFuel"
| "parse_elements (Suc n) acc s =
     (case skip_ws s of
        [] \<Rightarrow> Fail
      | c # r \<Rightarrow>
          if c = CHR '']'' then Ok (JArr acc) r
          else if c = CHR '','' then
            (case parse_value n r of
               Ok v r' \<Rightarrow> parse_elements n (acc @ [v]) r'
             | Fail \<Rightarrow> Fail
             | NoFuel \<Rightarrow> NoFuel)
          else Fail)"

text \<open>The whole text is one value with whitespace around it; anything else throws
  a \<open>SyntaxError\<close>.\<close>

definition JSON_parse :: "string \<Rightarrow> js_error + jsval" where
  "JSON_parse s =
     (case parse_value (Suc (length s)) s of
        Ok v r \<Rightarrow> if skip_ws r = [] then Inr v else Inl SyntaxError
      | _ \<Rightarrow> Inl SyntaxError)"

text \<open>
  The three statements proved by induction on the fuel, one per function of the
  mutual recursion: every result leaves a strictly shorter rest, fuel runs out
  only on inputs at least as long as the fuel, and one more unit of fuel never
  changes a result.
\<close>

abbreviation shorter_v :: "nat \<Rightarrow> bool" where
  "shorter_v n \<equiv> \<forall>s v r. parse_value n s = Ok v r \<longrightarrow> length r < length s"

abbreviation shorter_m :: "nat \<Rightarrow> bool" where
  "shorter_m n \<equiv> \<forall>acc s v r. parse_members n acc s = Ok v r \<longrightarrow> length r < length s"

abbreviation shorter_e :: "nat \<Rightarrow> bool" where
  "shorter_e n \<equiv> \<forall>vs s v r. parse_elements n vs s = Ok v r \<longrightarrow> length r < length s"

abbreviation fuel_v :: "nat \<Rightarrow> bool" where
  "fuel_v n \<equiv> \<forall>s. parse_value n s = NoFuel \<longrightarrow> n \<le> length s"

abbreviation fuel_m :: "nat \<Rightarrow> bool" where
  "fuel_m n \<equiv> \<forall>acc s. parse_members n acc s = NoFuel \<longrightarrow> n \<le> length s"

abbreviation fuel_e :: "nat \<Rightarrow> bool" where
  "fuel_e n \<equiv> \<forall>vs s. parse_elements n vs s = NoFuel \<longrightarrow> n \<le> length s"

abbreviation mono_v :: "nat \<Rightarrow> bool" where
  "mono_v n \<equiv> \<forall>s. parse_value n s \<noteq> NoFuel \<longrightarrow> parse_value (Suc n) s = parse_value n s"

abbreviation mono_m :: "nat \<Rightarrow> bool" where
  "mono_m n \<equiv> \<forall>acc s. parse_members n acc s \<noteq> NoFuel \<longrightarrow> parse_members (Suc n) acc s = parse_members n acc s"

abbreviation mono_e :: "nat \<Rightarrow> bool" where
  "mono_e n \<equiv> \<forall>vs s. parse_elements n vs s \<noteq> NoFuel \<longrightarrow> parse_elements (Suc n) vs s = parse_elements n vs s"

subsection \<open>Every parse consumes input\<close>

lemma unescape_shorter: "unescape cs = Some (p, r) \<Longrightarrow> length r < length cs"
  by (auto simp: unescape_def split: list.splits if_splits option.splits)

lemma length_skip_ws [simp]: "length (skip_ws s) \<le> length s"
  by (simp add: skip_ws_def length_dropWhile_le)

lemma skip_ws_Cons_shorter: "skip_ws s = c # r \<Longrightarrow> length r < length s"
  using length_skip_ws [of s] by simp

lemma prepend_str_Some [simp]:
  "prepend_str p x = Some (t, r) \<longleftrightarrow> (\<exists>t'. x = Some (t', r) \<and> t = p @ t')"
  by (cases x) (auto simp: prepend_str_def)

lemma parse_str_body_shorter: "parse_str_body s = Some (t, r) \<Longrightarrow> length r < length s"
proof (induction s arbitrary: t rule: parse_str_body.induct)
  case 1
  then show ?case by simp
next
  case (2 c cs)
  note ih = "2.IH"
  show ?case
  proof (cases "c \<noteq> dquote \<and> c = bslash")
    case True
    with "2.prems" obtain p q t' where u: "unescape cs = Some (p, q)" and b: "parse_str_body q = Some (t', r)"
      by (auto split: option.splits)
    have "length r < length q" using ih(1) [OF _ _ u refl b] True by simp
    with unescape_shorter [OF u] show ?thesis by simp
  next
    case False
    with "2.prems" "2.IH"(2) show ?thesis by (auto split: if_splits)
  qed
qed


lemma parse_frac_shorter: "parse_frac s = Some (fp, r) \<Longrightarrow> length r \<le> length s"
  by (auto simp: parse_frac_def Let_def split: list.splits if_splits)

lemma parse_exp_shorter: "parse_exp s = Some (x, r) \<Longrightarrow> length r \<le> length s"
  by (auto simp: parse_exp_def Let_def split: list.splits if_splits
           intro: order.trans [OF length_dropWhile_le])

lemma parse_sign_shorter: "parse_sign s = (neg, r) \<Longrightarrow> length r \<le> length s"
  by (auto simp: parse_sign_def split: list.splits if_splits)

lemma parse_int_digits_shorter: "parse_int_digits s = Some (ip, r) \<Longrightarrow> length r < length s"
  by (auto simp: parse_int_digits_def split: list.splits if_splits
           intro: le_imp_less_Suc length_dropWhile_le)

lemma parse_number_shorter: "parse_number s = Some (v, r) \<Longrightarrow> length r < length s"
  by (auto simp: parse_number_def Let_def split: option.splits prod.splits
           dest!: parse_sign_shorter parse_int_digits_shorter parse_frac_shorter parse_exp_shorter)

lemma parse_lit_shorter: "parse_lit s = Some (v, r) \<Longrightarrow> length r < length s"
  by (auto simp: parse_lit_def split: if_splits dest!: prefix_length_le)


lemmas parse_piece_shorter =
  parse_str_body_shorter parse_number_shorter parse_lit_shorter skip_ws_Cons_shorter

lemma skip_ws_lt: "length r < length (skip_ws x) \<Longrightarrow> length r < length x"
  using length_skip_ws [of x] by linarith

lemma parse_value_Suc_shorter:
  assumes "shorter_v n" "shorter_m n" "shorter_e n"
  shows "shorter_v (Suc n)"
proof (intro allI impI)
  fix s v r
  assume p: "parse_value (Suc n) s = Ok v r"
  from p obtain c q where sq: "skip_ws s = c # q"
    by (cases "skip_ws s") auto
  have "length (c # q) \<le> length s" using length_skip_ws [of s] sq by simp
  moreover have "length r < length (c # q)"
    using p sq
    by (auto split: if_splits list.splits presult.splits option.splits
             dest!: parse_str_body_shorter parse_number_shorter parse_lit_shorter
               assms(1) [rule_format] assms(2) [rule_format] assms(3) [rule_format]
             dest: skip_ws_Cons_shorter)
  ultimately show "length r < length s" by simp
qed

lemma parse_members_Suc_shorter:
  assumes "shorter_v n" "shorter_m n"
  shows "shorter_m (Suc n)"
  by (auto split: if_splits list.splits presult.splits option.splits
           dest!: parse_str_body_shorter assms(1) [rule_format] assms(2) [rule_format])
     (fastforce dest!: skip_ws_Cons_shorter skip_ws_lt)+

lemma parse_elements_Suc_shorter:
  assumes "shorter_v n" "shorter_e n"
  shows "shorter_e (Suc n)"
  by (auto split: if_splits list.splits presult.splits
           dest!: assms(1) [rule_format] assms(2) [rule_format])
     (fastforce dest!: skip_ws_Cons_shorter)+

lemma parse_shorter_all: "shorter_v n \<and> shorter_m n \<and> shorter_e n"
proof (induction n)
  case 0
  then show ?case by simp
next
  case (Suc n)
  have v: "shorter_v n" and m: "shorter_m n" and e: "shorter_e n"
    using Suc.IH by simp_all
  show ?case
    by (intro conjI parse_value_Suc_shorter parse_members_Suc_shorter parse_elements_Suc_shorter v m e)
qed

lemma parse_value_shorter: "parse_value n s = Ok v r \<Longrightarrow> length r < length s"
  using parse_shorter_all by blast

lemma parse_members_shorter: "parse_members n acc s = Ok v r \<Longrightarrow> length r < length s"
  using parse_shorter_all by blast

lemma parse_elements_shorter: "parse_elements n vs s = Ok v r \<Longrightarrow> length r < length s"
  using parse_shorter_all by blast


subsection \<open>Enough fuel\<close>

lemma skip_ws_le: "n \<le> length (skip_ws x) \<Longrightarrow> n \<le> length x"
  using length_skip_ws [of x] by linarith

lemma parse_value_Suc_fuel:
  assumes "fuel_v n" "fuel_m n" "fuel_e n"
  shows "fuel_v (Suc n)"
proof (intro allI impI)
  fix s
  assume p: "parse_value (Suc n) s = NoFuel"
  from p obtain c q where sq: "skip_ws s = c # q"
    by (cases "skip_ws s") auto
  have "length (c # q) \<le> length s" using length_skip_ws [of s] sq by simp
  moreover have "n \<le> length q"
    using p sq
    by (auto split: if_splits list.splits presult.splits option.splits
             dest!: assms(1) [rule_format] assms(2) [rule_format] assms(3) [rule_format]
             dest: parse_value_shorter skip_ws_Cons_shorter)
  ultimately show "Suc n \<le> length s" by simp
qed

lemma parse_members_Suc_fuel:
  assumes "fuel_v n" "fuel_m n"
  shows "fuel_m (Suc n)"
  by (auto split: if_splits list.splits presult.splits option.splits
           dest!: assms(1) [rule_format] assms(2) [rule_format]
           dest: parse_value_shorter parse_str_body_shorter skip_ws_Cons_shorter)
     (fastforce dest!: parse_value_shorter parse_str_body_shorter skip_ws_Cons_shorter skip_ws_le)+

lemma parse_elements_Suc_fuel:
  assumes "fuel_v n" "fuel_e n"
  shows "fuel_e (Suc n)"
  by (auto split: if_splits list.splits presult.splits
           dest!: assms(1) [rule_format] assms(2) [rule_format])
     (fastforce dest!: parse_value_shorter skip_ws_Cons_shorter)+

lemma parse_fuel_all: "fuel_v n \<and> fuel_m n \<and> fuel_e n"
proof (induction n)
  case 0
  then show ?case by simp
next
  case (Suc n)
  have v: "fuel_v n" and m: "fuel_m n" and e: "fuel_e n"
    using Suc.IH by simp_all
  show ?case
    by (intro conjI parse_value_Suc_fuel parse_members_Suc_fuel parse_elements_Suc_fuel v m e)
qed

lemma parse_fuel_enough: "length s < n \<Longrightarrow> parse_value n s \<noteq> NoFuel"
  using parse_fuel_all [of n] by auto


subsection \<open>More fuel changes nothing\<close>

lemmas parse_rec_simps = parse_value.simps parse_members.simps parse_elements.simps

lemma parse_value_Suc_mono:
  assumes "mono_v n" "mono_m n" "mono_e n"
  shows "mono_v (Suc n)"
proof (intro allI impI)
  fix s
  assume ne: "parse_value (Suc n) s \<noteq> NoFuel"
  then show "parse_value (Suc (Suc n)) s = parse_value (Suc n) s"
    unfolding parse_value.simps(2) [of "Suc n" s] parse_value.simps(2) [of n s]
    by (auto split: list.splits if_splits presult.splits option.splits
             simp del: parse_rec_simps
             simp: assms(1) [rule_format] assms(2) [rule_format] assms(3) [rule_format])
qed


lemma parse_members_Suc_mono:
  assumes "mono_v n" "mono_m n"
  shows "mono_m (Suc n)"
proof (intro allI impI)
  fix acc s
  assume "parse_members (Suc n) acc s \<noteq> NoFuel"
  then show "parse_members (Suc (Suc n)) acc s = parse_members (Suc n) acc s"
    unfolding parse_members.simps(2) [of "Suc n" acc s] parse_members.simps(2) [of n acc s]
    by (auto split: list.splits if_splits presult.splits option.splits
             simp del: parse_rec_simps
             simp: assms(1) [rule_format] assms(2) [rule_format])
qed

lemma parse_elements_Suc_mono:
  assumes "mono_v n" "mono_e n"
  shows "mono_e (Suc n)"
proof (intro allI impI)
  fix vs s
  assume "parse_elements (Suc n) vs s \<noteq> NoFuel"
  then show "parse_elements (Suc (Suc n)) vs s = parse_elements (Suc n) vs s"
    unfolding parse_elements.simps(2) [of "Suc n" vs s] parse_elements.simps(2) [of n vs s]
    by (auto split: list.splits if_splits presult.splits
             simp del: parse_rec_simps
             simp: assms(1) [rule_format] assms(2) [rule_format])
qed

lemma parse_mono_all: "mono_v n \<and> mono_m n \<and> mono_e n"
proof (induction n)
  case 0
  then show ?case by simp
next
  case (Suc n)
  have v: "mono_v n" and m: "mono_m n" and e: "mono_e n"
    using Suc.IH by simp_all
  show ?case
    by (intro conjI parse_value_Suc_mono parse_members_Suc_mono parse_elements_Suc_mono v m e)
qed

lemma parse_value_fuel_mono:
  assumes "parse_value n s \<noteq> NoFuel" "n \<le> m"
  shows "parse_value m s = parse_value n s"
  using assms(2)
proof (induction m)
  case 0
  then show ?case by simp
next
  case (Suc m)
  show ?case
  proof (cases "n = Suc m")
    case False
    with Suc.prems have "n \<le> m" by simp
    with Suc.IH have eq: "parse_value m s = parse_value n s" by simp
    with assms(1) have "parse_value m s \<noteq> NoFuel" by simp
    with parse_mono_all [of m] have "parse_value (Suc m) s = parse_value m s" by blast
    with eq show ?thesis by simp
  qed simp
qed

text \<open>Any fuel that gives a result gives the one \<open>JSON_parse\<close> computes.\<close>

lemma JSON_parse_via_fuel:
  assumes "parse_value n s = Ok v r" "skip_ws r = []"
  shows "JSON_parse s = Inr v"
proof -
  have ne: "parse_value (Suc (length s)) s \<noteq> NoFuel" by (rule parse_fuel_enough) simp
  have "parse_value (max n (Suc (length s))) s = parse_value n s"
    by (rule parse_value_fuel_mono) (use assms(1) in simp_all)
  moreover have "parse_value (max n (Suc (length s))) s = parse_value (Suc (length s)) s"
    by (rule parse_value_fuel_mono [OF ne]) simp
  ultimately show ?thesis using assms by (simp add: JSON_parse_def)
qed


subsection \<open>Quoted strings read back\<close>

lemma hex_val_hex_digit: "d < 16 \<Longrightarrow> hex_val (hex_digit d) = Some d"
  by (auto simp: hex_val_def hex_digit_def Let_def)

lemma hex_val_zero [simp]: "hex_val (CHR ''0'') = Some 0"
  by (simp add: hex_val_def)

lemma esc_ctrl:
  assumes "(of_char c :: nat) < 32" "c \<notin> {CHR 0x08, CHR 0x09, CHR 0x0A, CHR 0x0C, CHR 0x0D}"
  shows "json_escape_char c = [bslash, CHR ''u'', CHR ''0'', CHR ''0'',
                 hex_digit (of_char c div 16), hex_digit (of_char c mod 16)]"
proof -
  have "c \<noteq> dquote" "c \<noteq> bslash" using assms(1) by auto
  with assms show ?thesis by (simp add: json_escape_char_def)
qed

lemma unescape_ctrl:
  assumes "(of_char c :: nat) < 32"
  shows "unescape (CHR ''u'' # CHR ''0'' # CHR ''0'' # hex_digit (of_char c div 16)
                   # hex_digit (of_char c mod 16) # x) = Some ([c], x)"
proof -
  have "(of_char c div 16) * 16 + of_char c mod 16 = (of_char c :: nat)"
    by (rule div_mult_mod_eq)
  with assms show ?thesis
    by (simp add: unescape_def hex_val_hex_digit utf8_unit_def)
qed

lemma parse_str_body_escape_char:
  "parse_str_body (json_escape_char c @ x) = prepend_str [c] (parse_str_body x)"
proof -
  consider (named) "c \<in> {CHR 0x08, CHR 0x09, CHR 0x0A, CHR 0x0C, CHR 0x0D, dquote, bslash}"
    | (ctrl) "(of_char c :: nat) < 32" "c \<notin> {CHR 0x08, CHR 0x09, CHR 0x0A, CHR 0x0C, CHR 0x0D}"
    | (plain) "\<not> (of_char c :: nat) < 32" "c \<noteq> dquote" "c \<noteq> bslash"
    by blast
  then show ?thesis
  proof cases
    case named
    then show ?thesis by (auto simp: json_escape_char_def unescape_def)
  next
    case ctrl
    then show ?thesis by (simp add: esc_ctrl unescape_ctrl)
  next
    case plain
    then have "c \<notin> {CHR 0x08, CHR 0x09, CHR 0x0A, CHR 0x0C, CHR 0x0D}" by auto
    with plain have "json_escape_char c = [c]" by (simp add: json_escape_char_def)
    with plain show ?thesis by simp
  qed
qed

theorem parse_str_body_quote:
  "parse_str_body (concat (map json_escape_char t) @ dquote # rest) = Some (t, rest)"
  by (induction t) (simp_all add: parse_str_body_escape_char prepend_str_def)

lemma parse_value_quote:
  "parse_value (Suc n) (json_quote t @ rest) = Ok (JStr t) rest"
  by (simp add: json_quote_def skip_ws_def json_ws_def parse_str_body_quote)

subsection \<open>Properties of JSON.parse\<close>

text \<open>The fuel \<open>Suc (length s)\<close> given by \<open>JSON_parse\<close> never runs out,
  and \<open>JSON_parse\<close> accepts exactly the texts that the recursive-descent parser
  reads, with any fuel, as one value followed by whitespace only: the bound does
  not change the language.\<close>

theorem JSON_parse_fuel_adequate:
  "parse_value (Suc (length s)) s \<noteq> NoFuel \<and>
   (JSON_parse s = Inr v \<longleftrightarrow> (\<exists>n r. parse_value n s = Ok v r \<and> skip_ws r = []))"
proof (intro conjI iffI)
  show "parse_value (Suc (length s)) s \<noteq> NoFuel" by (rule parse_fuel_enough) simp
next
  assume "JSON_parse s = Inr v"
  then show "\<exists>n r. parse_value n s = Ok v r \<and> skip_ws r = []"
    unfolding JSON_parse_def
    by (auto split: presult.splits if_splits simp del: parse_rec_simps)
next
  assume "\<exists>n r. parse_value n s = Ok v r \<and> skip_ws r = []"
  then show "JSON_parse s = Inr v" by (auto intro: JSON_parse_via_fuel)
qed

text \<open>\<open>JSON.parse\<close> reads back every string \<open>JSON.stringify\<close> writes:
  the quoted and escaped form of \<open>t\<close> parses to the string \<open>t\<close>.\<close>

theorem JSON_parse_quote_roundtrip: "JSON_parse (json_quote t) = Inr (JStr t)"
proof (rule JSON_parse_via_fuel)
  show "parse_value (Suc 0) (json_quote t) = Ok (JStr t) []"
    using parse_value_quote [of 0 t "[]"] by simp
qed (simp add: skip_ws_def)

end
