(* ===== verification/JsString.thy ===== *)
theory JsString
  imports Prelude
begin

text \<open>
  \<open>String.prototype.trim\<close> and \<open>startsWith\<close> on UTF-8 byte strings.
  JavaScript strips every WhiteSpace and LineTerminator code point from both
  ends; each is listed here by its UTF-8 encoding, so stripping whole sequences
  from a valid UTF-8 string strips whole code points. The code uses
  \<open>trim()\<close> in two places: the blank-input guard of \<open>sendUserMessage\<close> and the
  "looks like a JSON object" test of the response handler.
\<close>

definition js_ws_seqs :: "string list" where
  "js_ws_seqs =
     [[CHR 0x09], [CHR 0x0A], [CHR 0x0B], [CHR 0x0C], [CHR 0x0D], [CHR 0x20],
      [CHR 0xC2, CHR 0xA0],
      [CHR 0xE1, CHR 0x9A, CHR 0x80],
      [CHR 0xE2, CHR 0x80, CHR 0x80], [CHR 0xE2, CHR 0x80, CHR 0x81],
      [CHR 0xE2, CHR 0x80, CHR 0x82], [CHR 0xE2, CHR 0x80, CHR 0x83],
      [CHR 0xE2, CHR 0x80, CHR 0x84], [CHR 0xE2, CHR 0x80, CHR 0x85],
      [CHR 0xE2, CHR 0x80, CHR 0x86], [CHR 0xE2, CHR 0x80, CHR 0x87],
      [CHR 0xE2, CHR 0x80, CHR 0x88], [CHR 0xE2, CHR 0x80, CHR 0x89],
      [CHR 0xE2, CHR 0x80, CHR 0x8A],
      [CHR 0xE2, CHR 0x80, CHR 0xA8], [CHR 0xE2, CHR 0x80, CHR 0xA9],
      [CHR 0xE2, CHR 0x80, CHR 0xAF], [CHR 0xE2, CHR 0x81, CHR 0x9F],
      [CHR 0xE3, CHR 0x80, CHR 0x80],
      [CHR 0xEF, CHR 0xBB, CHR 0xBF]]"

function trim_start :: "string \<Rightarrow> string" where
  "trim_start s =
     (case find (\<lambda>w. prefix w s) js_ws_seqs of
        Some w \<Rightarrow> trim_start (drop (length w) s)
      | None \<Rightarrow> s)"
  by pat_completeness auto
termination
proof (relation "measure length")
  fix s w
  assume f: "find (\<lambda>w. prefix w s) js_ws_seqs = Some w"
  have "w \<in> set js_ws_seqs" using f by (rule find_Some_in_set)
  then have "w \<noteq> []" by (auto simp: js_ws_seqs_def)
  moreover have "prefix w s" using f by (rule find_Some_holds)
  then have "length w \<le> length s" by (rule prefix_length_le)
  ultimately show "(drop (length w) s, s) \<in> measure length"
    by (cases w) auto
qed simp

function trim_end :: "string \<Rightarrow> string" where
  "trim_end s =
     (case find (\<lambda>w. suffix w s) js_ws_seqs of
        Some w \<Rightarrow> trim_end (take (length s - length w) s)
      | None \<Rightarrow> s)"
  by pat_completeness auto
termination
proof (relation "measure length")
  fix s w
  assume f: "find (\<lambda>w. suffix w s) js_ws_seqs = Some w"
  have "w \<in> set js_ws_seqs" using f by (rule find_Some_in_set)
  then have "w \<noteq> []" by (auto simp: js_ws_seqs_def)
  moreover have "suffix w s" using f by (rule find_Some_holds)
  then have "length w \<le> length s" by (rule suffix_length_le)
  ultimately show "(take (length s - length w) s, s) \<in> measure length"
    by (cases w) auto
qed simp

declare trim_start.simps [simp del] trim_end.simps [simp del]

definition js_trim :: "string \<Rightarrow> string" where
  "js_trim s = trim_end (trim_start s)"

definition starts_with :: "string \<Rightarrow> string \<Rightarrow> bool" where
  "starts_with s p \<longleftrightarrow> prefix p s"

subsection \<open>What trimming keeps\<close>

lemma js_ws_seqs_no_brace: "w \<in> set js_ws_seqs \<Longrightarrow> CHR ''{'' \<notin> set w"
  by (auto simp: js_ws_seqs_def)

lemma trim_start_suffix: "suffix (trim_start s) s"
proof (induction s rule: trim_start.induct)
  case (1 s)
  show ?case
  proof (cases "find (\<lambda>w. prefix w s) js_ws_seqs")
    case None
    then show ?thesis by (simp add: trim_start.simps)
  next
    case (Some w)
    with "1.IH" have "suffix (trim_start (drop (length w) s)) (drop (length w) s)" by simp
    moreover have "suffix (drop (length w) s) s" by (rule suffix_drop)
    ultimately show ?thesis using Some by (simp add: trim_start.simps suffix_order.trans)
  qed
qed

lemma trim_end_prefix: "prefix (trim_end s) s"
proof (induction s rule: trim_end.induct)
  case (1 s)
  show ?case
  proof (cases "find (\<lambda>w. suffix w s) js_ws_seqs")
    case None
    then show ?thesis by (simp add: trim_end.simps)
  next
    case (Some w)
    with "1.IH" have "prefix (trim_end (take (length s - length w) s)) (take (length s - length w) s)"
      by simp
    moreover have "prefix (take (length s - length w) s) s" by (rule take_is_prefix)
    ultimately show ?thesis using Some by (simp add: trim_end.simps prefix_order.trans)
  qed
qed

text \<open>Trimming the end never removes a leading brace: no whitespace sequence contains one.\<close>

lemma trim_end_brace: "trim_end (CHR ''{'' # r) = CHR ''{'' # drop 1 (trim_end (CHR ''{'' # r))"
proof (induction "CHR ''{'' # r" arbitrary: r rule: trim_end.induct)
  case 1
  show ?case
  proof (cases "find (\<lambda>w. suffix w (CHR ''{'' # r)) js_ws_seqs")
    case None
    then show ?thesis by (simp add: trim_end.simps)
  next
    case (Some w)
    then have w: "w \<in> set js_ws_seqs" "suffix w (CHR ''{'' # r)"
      by (auto dest: find_Some_holds)
    then have "suffix w r"
      using js_ws_seqs_no_brace by (blast intro: suffix_Cons_hd)
    then have "length w \<le> length r" by (rule suffix_length_le)
    then have tk: "take (length (CHR ''{'' # r) - length w) (CHR ''{'' # r)
                   = CHR ''{'' # take (length r - length w) r"
      by (simp add: Suc_diff_le)
    have "trim_end (CHR ''{'' # r) = trim_end (CHR ''{'' # take (length r - length w) r)"
      using Some tk by (simp add: trim_end.simps [of "CHR ''{'' # r"])
    also have "\<dots> = CHR ''{'' # drop 1 \<dots>"
      using "1" Some tk by simp
    finally show ?thesis by simp
  qed
qed

lemma starts_with_brace_trim:
  "starts_with (js_trim s) ''{'' \<longleftrightarrow> (\<exists>r. trim_start s = CHR ''{'' # r)"
proof
  assume "starts_with (js_trim s) ''{''"
  then obtain r where r: "js_trim s = CHR ''{'' # r"
    by (auto simp: starts_with_def prefix_def)
  have "prefix (js_trim s) (trim_start s)"
    by (simp add: js_trim_def trim_end_prefix)
  with r show "\<exists>r. trim_start s = CHR ''{'' # r"
    by (auto simp: prefix_def)
next
  assume "\<exists>r. trim_start s = CHR ''{'' # r"
  then obtain r where "trim_start s = CHR ''{'' # r" by blast
  then show "starts_with (js_trim s) ''{''"
    by (subst js_trim_def, simp, subst trim_end_brace) (simp add: starts_with_def)
qed


lemma js_trim_Nil [simp]: "js_trim [] = []"
  by (simp add: js_trim_def trim_start.simps trim_end.simps js_ws_seqs_def)

lemma js_trim_nonempty: "js_trim s \<noteq> [] \<Longrightarrow> s \<noteq> []"
  by auto

end
