(* ===== verification/Normalize.thy ===== *)
theory Normalize
  imports JsonParse JsString
begin

text \<open>
  The reply normalizer: the part of the success handler of
  \<open>LoginComponent.sendUserMessage\<close> (\<open>login.component.ts\<close>, lines 123--169)
  that turns \<open>res.response\<close> into \<open>botText\<close>. A string that looks like a JSON
  object is parsed (a parse error is swallowed); an object yields its
  \<open>message\<close>, else its \<open>response\<close> unwrapped once more, else its
  serialisation; anything else goes through \<open>String()\<close>. The tests are
  JavaScript truthiness tests, not presence tests, and the result is whatever
  value the field held, so it is a \<open>jsval\<close>, not a string. The only statement
  that could throw is \<open>botText.message\<close> in the inner unwrap; it is modelled
  with \<open>get_prop\<close>, and \<open>normalize_never_throws\<close> shows it never does.
\<close>

text \<open>Lines 126--137: \<open>if (typeof responseObj === 'string') try { if
  (responseObj.trim().startsWith('{')) responseObj = JSON.parse(responseObj) } catch {}\<close>.\<close>

definition parse_response_string :: "jsval \<Rightarrow> jsval" where
  "parse_response_string r =
     (case r of
        JStr s \<Rightarrow>
          if starts_with (js_trim s) ''{'' then
            (case JSON_parse s of Inr parsed \<Rightarrow> parsed | Inl _ \<Rightarrow> r)
          else r
      | _ \<Rightarrow> r)"

text \<open>Lines 147--159: the second unwrap of the \<open>response\<close> field.\<close>

definition unwrap_inner :: "jsval \<Rightarrow> js_error + jsval" where
  "unwrap_inner botText =
     (if typeof botText = ''string'' then
        (case botText of
           JStr s \<Rightarrow>
             if starts_with (js_trim s) ''{'' then
               (case JSON_parse s of
                  Inl _ \<Rightarrow> Inr botText
                | Inr parsedInner \<Rightarrow>
                    (case get_prop parsedInner ''message'' of
                       Inl _ \<Rightarrow> Inr botText
                     | Inr m \<Rightarrow> Inr (if truthy m then m else botText)))
             else Inr botText
         | _ \<Rightarrow> Inr botText)
      else if typeof botText = ''object'' then
        (case get_prop botText ''message'' of
           Inl err \<Rightarrow> Inl err
         | Inr m \<Rightarrow> Inr (if truthy m then m else botText))
      else Inr botText)"

text \<open>Lines 123--169. In the object branch the receiver is a non-null object, so
  reading \<open>message\<close> and \<open>response\<close> cannot throw and is \<open>obj_get\<close>.\<close>

definition normalize_response :: "jsval \<Rightarrow> js_error + jsval" where
  "normalize_response r =
     (let responseObj = parse_response_string r in
      if typeof responseObj = ''object'' \<and> responseObj \<noteq> JNull then
        (if truthy (obj_get responseObj ''message'') then Inr (obj_get responseObj ''message'')
         else if truthy (obj_get responseObj ''response'') then
           unwrap_inner (obj_get responseObj ''response'')
         else Inr (JSON_stringify responseObj))
      else Inr (JStr (js_String responseObj)))"

subsection \<open>Helper facts\<close>

lemma trim_start_brace [simp]: "trim_start (CHR ''{'' # r) = CHR ''{'' # r"
  by (simp add: trim_start.simps js_ws_seqs_def)

lemma JSON_parse_member:
  "JSON_parse (''{'' @ json_quote k @ '':'' @ json_quote v @ ''}'') = Inr (JObj [(k, JStr v)])"
proof (rule JSON_parse_via_fuel)
  show "parse_value (Suc (Suc (Suc 0))) (''{'' @ json_quote k @ '':'' @ json_quote v @ ''}'')
        = Ok (JObj [(k, JStr v)]) []"
    by (simp add: json_quote_def skip_ws_def json_ws_def parse_str_body_quote)
qed (simp add: skip_ws_def)

lemma json_quote_message: \<open>''{"message":'' @ x = ''{'' @ json_quote ''message'' @ '':'' @ x\<close>
  by (simp add: json_quote_def json_escape_char_def)

lemma json_quote_response: \<open>''{"response":'' @ x = ''{'' @ json_quote ''response'' @ '':'' @ x\<close>
  by (simp add: json_quote_def json_escape_char_def)

lemma JSON_parse_message:
  \<open>JSON_parse (''{"message":'' @ json_quote m @ ''}'') = Inr (JObj [(''message'', JStr m)])\<close>
  unfolding json_quote_message by (rule JSON_parse_member)

lemma JSON_parse_response:
  \<open>JSON_parse (''{"response":'' @ json_quote m @ ''}'') = Inr (JObj [(''response'', JStr m)])\<close>
  unfolding json_quote_response by (rule JSON_parse_member)

lemma unwrap_inner_Inr: "truthy b \<Longrightarrow> \<exists>v. unwrap_inner b = Inr v"
  by (cases b) (auto simp: unwrap_inner_def js_simps split: sum.splits)

lemma normalize_response_Inr: "normalize_response r \<noteq> Inl e"
proof
  assume n: "normalize_response r = Inl e"
  let ?obj = "parse_response_string r"
  have "truthy (obj_get ?obj ''response'')" and "unwrap_inner (obj_get ?obj ''response'') = Inl e"
    using n by (auto simp: normalize_response_def Let_def split: if_splits)
  then show False using unwrap_inner_Inr by fastforce
qed

subsection \<open>What the normalizer guarantees\<close>

text \<open>C1. The normalizer never throws: whatever \<open>res.response\<close> holds, the
  computation of \<open>botText\<close> ends with a value (the one property read that could
  throw, \<open>botText.message\<close> on \<open>null\<close>, is guarded by the truthiness test that
  selected \<open>response\<close>).\<close>

theorem normalize_never_throws: "\<exists>v. normalize_response r = Inr v"
  using normalize_response_Inr by (cases "normalize_response r") auto

text \<open>C2. A plain-text reply wrapped as \<open>{"response": t}\<close> is displayed as \<open>t\<close>,
  whatever characters \<open>t\<close> contains, as long as it is not empty and does not
  itself look like a JSON object.\<close>

theorem normalize_response_roundtrip:
  assumes "t \<noteq> []" "\<not> starts_with (js_trim t) ''{''"
  shows \<open>normalize_response (JStr (''{"response":'' @ json_quote t @ ''}'')) = Inr (JStr t)\<close>
proof -
  have inner: "unwrap_inner (JStr t) = Inr (JStr t)"
    using assms(2) by (simp add: unwrap_inner_def)
  show ?thesis
    using assms(1) inner JSON_parse_response [of t]
    by (simp add: normalize_response_def parse_response_string_def starts_with_brace_trim)
qed

theorem normalize_response_roundtrip_witness:
  \<open>''plain'' \<noteq> [] \<and> \<not> starts_with (js_trim ''plain'') ''{'' \<and>
   normalize_response (JStr (''{"response":'' @ json_quote ''plain'' @ ''}'')) = Inr (JStr ''plain'')\<close>
proof -
  have h1: "''plain'' \<noteq> []" by simp
  have h2: "\<not> starts_with (js_trim ''plain'') ''{''" by code_simp
  show ?thesis using h1 h2 normalize_response_roundtrip [OF h1 h2] by blast
qed

text \<open>C3. A non-empty text sent as the \<open>message\<close> of a JSON object comes back as
  the display text, directly or wrapped once more as a JSON string under
  \<open>response\<close>, whatever characters it contains (they are escaped by
  \<open>JSON.stringify\<close> and unescaped by \<open>JSON.parse\<close>).\<close>

theorem normalize_message_roundtrip:
  assumes "m \<noteq> []"
  shows \<open>normalize_response (JStr (''{"message":'' @ json_quote m @ ''}'')) = Inr (JStr m) \<and>
         normalize_response (JStr (''{"response":'' @ json_quote (''{"message":'' @ json_quote m @ ''}'') @ ''}''))
           = Inr (JStr m)\<close>
proof -
  have inner: \<open>unwrap_inner (JStr (''{"message":'' @ json_quote m @ ''}'')) = Inr (JStr m)\<close>
    using assms JSON_parse_message [of m]
    by (simp add: unwrap_inner_def js_simps starts_with_brace_trim)
  show ?thesis
    using assms JSON_parse_message [of m] inner
      JSON_parse_response [of \<open>''{"message":'' @ json_quote m @ ''}''\<close>]
    by (simp add: normalize_response_def parse_response_string_def starts_with_brace_trim)
qed

theorem normalize_message_roundtrip_witness:
  \<open>normalize_response (JStr (''{"message":'' @ json_quote ''hi'' @ ''}'')) = Inr (JStr ''hi'') \<and>
   normalize_response (JStr (''{"response":'' @ json_quote (''{"message":'' @ json_quote ''hi'' @ ''}'') @ ''}''))
     = Inr (JStr ''hi'')\<close>
  using normalize_message_roundtrip [of "''hi''"] by simp

text \<open>C16. The \<open>message\<close> test is a truthiness test: a \<open>message\<close> that is present
  but falsy (empty string, \<open>0\<close>, \<open>false\<close>, \<open>null\<close>) is skipped, and the
  display text comes from \<open>response\<close>, although the specification takes a present
  \<open>message\<close> as the display text.\<close>

theorem normalize_falsy_message:
  "\<not> truthy m \<Longrightarrow> truthy r \<Longrightarrow>
   normalize_response (JObj ((''message'', m) # (''response'', r) # kvs)) = unwrap_inner r"
  by (simp add: normalize_response_def parse_response_string_def)

theorem normalize_falsy_message_witness:
  "\<not> truthy (JStr []) \<and> truthy (JStr ''x'') \<and>
   normalize_response (JObj [(''message'', JStr []), (''response'', JStr ''x'')]) = Inr (JStr ''x'')"
proof -
  have h1: "\<not> truthy (JStr [])" and h2: "truthy (JStr ''x'')" by simp_all
  have u: "unwrap_inner (JStr ''x'') = Inr (JStr ''x'')" by code_simp
  show ?thesis using h1 h2 u normalize_falsy_message [OF h1 h2, of "[]"] by simp
qed

text \<open>C17. The display text is the \<open>message\<close> field's value as it is, whatever its
  type: a truthy number, array or object is returned unconverted, not as a string.\<close>

theorem normalize_nonstring_message:
  "truthy m \<Longrightarrow> normalize_response (JObj ((''message'', m) # kvs)) = Inr m"
  by (simp add: normalize_response_def parse_response_string_def)

theorem normalize_nonstring_message_witness:
  "truthy (JNum 42 0) \<and> normalize_response (JObj [(''message'', JNum 42 0)]) = Inr (JNum 42 0)"
  using normalize_nonstring_message [of "JNum 42 0" "[]"] by simp

text \<open>C19. A string that does not start with a brace once trimmed is displayed as
  it is.\<close>

theorem normalize_literal:
  "\<not> starts_with (js_trim s) ''{'' \<Longrightarrow> normalize_response (JStr s) = Inr (JStr s)"
  by (simp add: normalize_response_def parse_response_string_def)

theorem normalize_literal_witness:
  "\<not> starts_with (js_trim ''just text'') ''{'' \<and>
   normalize_response (JStr ''just text'') = Inr (JStr ''just text'')"
proof -
  have h: "\<not> starts_with (js_trim ''just text'') ''{''" by code_simp
  show ?thesis using h normalize_literal [OF h] by simp
qed

text \<open>C20. A string that starts like an object but is not valid JSON is displayed
  as it is: the \<open>SyntaxError\<close> is swallowed.\<close>

theorem normalize_malformed:
  "JSON_parse s = Inl e \<Longrightarrow> normalize_response (JStr s) = Inr (JStr s)"
  by (simp add: normalize_response_def parse_response_string_def)

theorem normalize_malformed_witness:
  "JSON_parse ''{bad'' = Inl SyntaxError \<and> normalize_response (JStr ''{bad'') = Inr (JStr ''{bad'')"
proof -
  have h: "JSON_parse ''{bad'' = Inl SyntaxError" by code_simp
  show ?thesis using h normalize_malformed [OF h] by simp
qed

text \<open>C21. Exactly one level of nesting is unwrapped: a \<open>response\<close> whose JSON
  holds another \<open>response\<close> is displayed as that inner JSON text.\<close>

theorem normalize_one_level:
  \<open>normalize_response
     (JStr (''{"response":'' @ json_quote (''{"response":'' @ json_quote m @ ''}'') @ ''}''))
   = Inr (JStr (''{"response":'' @ json_quote m @ ''}''))\<close>
proof -
  have inner: \<open>unwrap_inner (JStr (''{"response":'' @ json_quote m @ ''}''))
                = Inr (JStr (''{"response":'' @ json_quote m @ ''}''))\<close>
    using JSON_parse_response [of m]
    by (simp add: unwrap_inner_def js_simps starts_with_brace_trim)
  show ?thesis
    using inner JSON_parse_response [of \<open>''{"response":'' @ json_quote m @ ''}''\<close>]
    by (simp add: normalize_response_def parse_response_string_def starts_with_brace_trim)
qed

text \<open>C12. When the answer string looks like an object and the parser reads it as
  one value followed only by white space, with any amount of fuel, the handler
  replaces the string by that value: the fuel bound inside \<open>JSON_parse\<close> never
  decides the outcome.\<close>

theorem response_string_parse:
  assumes "starts_with (js_trim s) ''{''" "parse_value n s = Ok v r" "skip_ws r = []"
  shows "parse_response_string (JStr s) = v"
  using JSON_parse_via_fuel [OF assms(2,3)] assms(1) by (simp add: parse_response_string_def)

theorem response_string_parse_witness:
  \<open>starts_with (js_trim ''{"a":1}'') ''{'' \<and>
   parse_value 3 ''{"a":1}'' = Ok (JObj [(''a'', JNum 1 0)]) [] \<and> skip_ws [] = [] \<and>
   parse_response_string (JStr ''{"a":1}'') = JObj [(''a'', JNum 1 0)]\<close>
proof -
  have h1: \<open>starts_with (js_trim ''{"a":1}'') ''{''\<close> by code_simp
  have h2: \<open>parse_value 3 ''{"a":1}'' = Ok (JObj [(''a'', JNum 1 0)]) []\<close> by code_simp
  have h3: "skip_ws [] = []" by (simp add: skip_ws_def)
  show ?thesis using h1 h2 h3 response_string_parse [OF h1 h2 h3] by blast
qed

end
