(* ===== verification/ChatService.thy ===== *)
theory ChatService
  imports JsValue
begin

text \<open>
  \<open>ChatService\<close> (\<open>src/Frontend/src/app/services/chat.service.ts\<close>): the two
  requests the component sends. \<open>sendMessage\<close> builds a multipart form whose
  optional fields are appended only when the argument is truthy, each value going
  through ToString as \<open>FormData.append\<close> does; \<open>getAudio\<close> posts a JSON body
  \<open>{text}\<close> and expects a binary blob. The HTTP transport itself
  (\<open>HttpClient.post\<close>) is external: a request is a value, and the environment
  answers it later (theory \<open>Chat\<close>).
\<close>

record file_ref =
  file_name :: string

datatype form_value = FStr string | FFile file_ref

type_synonym form_data = "(string \<times> form_value) list"

datatype req_body = FormBody form_data | JsonBody jsval

record http_request =
  req_url :: string
  req_body :: req_body

definition chat_api_url :: string where
  "chat_api_url = ''http://localhost:9015/smart-chat-router-ladki-bahin''"

definition tts_url :: string where
  "tts_url = ''http://localhost:9015/api/tts''"

text \<open>\<open>if (v) { formData.append(name, v); }\<close>\<close>

definition append_if :: "string \<Rightarrow> jsval \<Rightarrow> form_data" where
  "append_if name v = (if truthy v then [(name, FStr (js_String v))] else [])"

definition sendMessage ::
  "string \<Rightarrow> string \<Rightarrow> jsval \<Rightarrow> jsval \<Rightarrow> file_ref option \<Rightarrow> jsval \<Rightarrow> http_request" where
  "sendMessage message sessionId prevRes prevResMode file docType =
     \<lparr>req_url = chat_api_url,
      req_body = FormBody
        ([(''message'', FStr message), (''session_id'', FStr sessionId)]
         @ append_if ''prev_res'' prevRes
         @ append_if ''prev_res_mode'' prevResMode
         @ (case file of Some f \<Rightarrow> [(''file'', FFile f)] | None \<Rightarrow> [])
         @ append_if ''doc_type'' docType)\<rparr>"

definition getAudio :: "string \<Rightarrow> http_request" where
  "getAudio text = \<lparr>req_url = tts_url, req_body = JsonBody (JObj [(''text'', JStr text)])\<rparr>"

definition form_field :: "http_request \<Rightarrow> string \<Rightarrow> form_value option" where
  "form_field req name =
     (case req_body req of FormBody fd \<Rightarrow> map_of fd name | JsonBody _ \<Rightarrow> None)"

end
