(* ===== verification/Chat.thy ===== *)
theory Chat
  imports Normalize ChatService
begin

text \<open>
  \<open>LoginComponent\<close> (\<open>src/Frontend/src/app/login/login.component.ts\<close>) as a
  conversation controller: its fields (lines 18--28, 46) are the record
  \<open>chat_state\<close>; each method that changes them is a function from the state
  (and its arguments) to the new state, together with the request it sends when it
  sends one. The subscription callbacks of \<open>sendUserMessage\<close> are the separate
  handlers \<open>chat_next\<close> (lines 120--180) and \<open>chat_error\<close> (lines 181--189):
  they run later, when the environment answers. \<open>chat_sys\<close> adds the requests
  in flight, and \<open>chat_step\<close> runs one event of the page: a method call, or the
  arrival of the answer to any in-flight request, in any order.
  The random draw of \<open>generateSessionId\<close> is an argument: the string
  \<open>Math.random().toString(36)\<close> printed.
\<close>

record chat_msg =
  msg_text :: jsval
  msg_isUser :: bool
  msg_file :: "file_ref option"

record chat_state =
  messages :: "chat_msg list"
  userMessage :: string
  sessionId :: string
  prevRes :: jsval
  prevResMode :: jsval
  isLoading :: bool
  selectedDocType :: string
  showPassword :: bool
  liveChat :: bool
  expandChatWindow :: bool

text \<open>The three fixed Marathi texts, as their Unicode code points (UTF-8 encoded).\<close>

definition utf8_text :: "nat list \<Rightarrow> string" where
  "utf8_text cps = concat (map utf8_unit cps)"

definition greeting_text :: string where
  "greeting_text = utf8_text
     [2344, 2350, 2360, 2381, 2325, 2366, 2352, 44, 32, 2350, 2368, 32, 2350, 2361, 2366, 2352, 2366, 2359,
      2381, 2335, 2381, 2352, 32, 2358, 2366, 2360, 2344, 2366, 2330, 2366, 32, 2319, 2332, 2306, 2335,
      2367, 2325, 32, 2319, 2310, 2351, 32, 2360, 2375, 2357, 2366, 32, 2348, 2377, 2335, 32, 2310, 2361,
      2375, 46, 32, 2350, 2368, 32, 2340, 2369, 2350, 2330, 2368, 32, 2354, 2366, 2337, 2325, 2368, 32, 2348,
      2361, 2368, 2339, 32, 2351, 2379, 2332, 2344, 2375, 2330, 2381, 2351, 2366, 32, 2350, 2366, 2361,
      2367, 2340, 2368, 2360, 2366, 2336, 2368, 32, 2310, 2339, 2367, 32, 2309, 2352, 2381, 2332, 2366,
      2360, 2366, 2336, 2368, 32, 2350, 2342, 2340, 32, 2325, 2352, 2370, 32, 2358, 2325, 2340, 2379, 46, 32,
      2340, 2369, 2350, 2381, 2361, 2368, 32, 2325, 2358, 2366, 32, 2346, 2381, 2352, 2325, 2366, 2352,
      2375, 32, 2350, 2342, 2340, 32, 2325, 2352, 2370, 32, 2311, 2330, 2381, 2331, 2367, 2340, 2366, 63]"

definition apology_text :: string where
  "apology_text = utf8_text
     [2325, 2381, 2359, 2350, 2360, 2381, 2357, 44, 32, 2325, 2366, 2361, 2368, 2340, 2352, 2368, 32, 2330,
      2370, 2325, 32, 2333, 2366, 2354, 2368, 46, 32, 2325, 2371, 2346, 2351, 2366, 32, 2346, 2369, 2344,
      2381, 2361, 2366, 32, 2346, 2381, 2352, 2351, 2340, 2381, 2344, 32, 2325, 2352, 2366, 46]"

definition reset_text :: string where
  "reset_text = utf8_text
     [2360, 2340, 2381, 2352, 32, 2352, 2368, 2360, 2375, 2335, 46, 32, 2354, 2366, 2337, 2325, 2368, 32,
      2348, 2361, 2367, 2344, 32, 2351, 2379, 2332, 2344, 2375, 2348, 2366, 2348, 2340, 32, 2350, 2368, 32,
      2340, 2369, 2350, 2381, 2361, 2366, 2354, 2366, 32, 2325, 2358, 2368, 32, 2350, 2342, 2340, 32, 2325,
      2352, 2370, 32, 2358, 2325, 2340, 2379, 63]"

definition bot_msg :: "jsval \<Rightarrow> chat_msg" where
  "bot_msg t = \<lparr>msg_text = t, msg_isUser = False, msg_file = None\<rparr>"

text \<open>Field initialisers, lines 18--28 and 46.\<close>

definition chat_init :: chat_state where
  "chat_init =
     \<lparr>messages = [], userMessage = [], sessionId = [], prevRes = JNull, prevResMode = JNull,
      isLoading = False, selectedDocType = [], showPassword = False, liveChat = False,
      expandChatWindow = False\<rparr>"

text \<open>Lines 62--64: \<open>'session_' + Math.random().toString(36).substr(2, 9)\<close>.\<close>

definition generateSessionId :: "string \<Rightarrow> string" where
  "generateSessionId rnd = ''session_'' @ take 9 (drop 2 rnd)"

text \<open>Lines 52--60.\<close>

definition ngOnInit :: "string \<Rightarrow> chat_state \<Rightarrow> chat_state" where
  "ngOnInit rnd s =
     (let s1 = s\<lparr>sessionId := generateSessionId rnd\<rparr> in
      s1\<lparr>messages := messages s1 @ [bot_msg (JStr greeting_text)]\<rparr>)"

text \<open>Lines 30--32, 66--69, 85--90: the flags and the document type.\<close>

definition togglePassword :: "chat_state \<Rightarrow> chat_state" where
  "togglePassword s = s\<lparr>showPassword := \<not> showPassword s\<rparr>"

text \<open>Lines 33--44: the document types offered by the upload buttons.\<close>

definition documents :: "string list" where
  "documents =
     [''Aadhaar Card'', ''Domicile Certificate'', ''Birth Certificate'', ''School Leaving Certificate'',
      ''Income Certificate'', ''Ration Card'', ''Voter ID'', ''Letter of Guarantee'', ''Bank Passbook'',
      ''Photograph'']"

definition openUploader :: "string \<Rightarrow> chat_state \<Rightarrow> chat_state" where
  "openUploader doc s = s\<lparr>selectedDocType := doc\<rparr>"

definition openLiveChat :: "chat_state \<Rightarrow> chat_state" where
  "openLiveChat s = s\<lparr>liveChat := \<not> liveChat s\<rparr>"

definition toggleChatWindowSize :: "chat_state \<Rightarrow> chat_state" where
  "toggleChatWindowSize s = s\<lparr>expandChatWindow := \<not> expandChatWindow s\<rparr>"

text \<open>Lines 92--119: the synchronous part of \<open>sendUserMessage\<close>, up to the
  request it hands to \<open>ChatService.sendMessage\<close>.\<close>

definition sendUserMessage :: "file_ref option \<Rightarrow> chat_state \<Rightarrow> chat_state \<times> http_request option" where
  "sendUserMessage file s =
     (if js_trim (userMessage s) = [] \<and> file = None then (s, None)
      else
        (let messageText =
               (case file of
                  None \<Rightarrow> userMessage s
                | Some f \<Rightarrow> ''Uploaded: '' @ file_name f @ '' ('' @ selectedDocType s @ '')'');
             s1 = s\<lparr>messages := messages s @
                       [\<lparr>msg_text = JStr messageText, msg_isUser = True, msg_file = file\<rparr>]\<rparr>;
             currentMsg = userMessage s1;
             s2 = s1\<lparr>userMessage := [], isLoading := True\<rparr>;
             req = sendMessage (if file \<noteq> None then ''Uploaded document'' else currentMsg)
                     (sessionId s2) (prevRes s2) (prevResMode s2) file
                     (if file \<noteq> None then JStr (selectedDocType s2) else JNull)
         in (s2, Some req)))"

text \<open>Lines 120--180: the \<open>next\<close> callback. It clears \<open>isLoading\<close> first; reading
  \<open>res.response\<close> of a \<open>null\<close> body throws, and the exception leaves the
  handler with only that done. The error component is the uncaught exception.\<close>

definition chat_next :: "jsval \<Rightarrow> chat_state \<Rightarrow> chat_state \<times> js_error option" where
  "chat_next res s =
     (let s1 = s\<lparr>isLoading := False\<rparr> in
      case get_prop res ''response'' of
        Inl e \<Rightarrow> (s1, Some e)
      | Inr responseObj \<Rightarrow>
          (case normalize_response responseObj of
             Inl e \<Rightarrow> (s1, Some e)
           | Inr botText \<Rightarrow>
               (let s2 = s1\<lparr>messages := messages s1 @ [bot_msg botText]\<rparr>;
                    s3 = s2\<lparr>prevRes := botText\<rparr> in
                case get_prop res ''mode'' of
                  Inl e \<Rightarrow> (s3, Some e)
                | Inr m \<Rightarrow> (s3\<lparr>prevResMode := m\<rparr>, None))))"

text \<open>Lines 181--189: the \<open>error\<close> callback.\<close>

definition chat_error :: "chat_state \<Rightarrow> chat_state" where
  "chat_error s =
     (let s1 = s\<lparr>isLoading := False\<rparr> in
      s1\<lparr>messages := messages s1 @ [bot_msg (JStr apology_text)]\<rparr>)"

text \<open>Lines 193--196.\<close>

definition handleQuickReply :: "string \<Rightarrow> chat_state \<Rightarrow> chat_state \<times> http_request option" where
  "handleQuickReply reply s = sendUserMessage None (s\<lparr>userMessage := reply\<rparr>)"

text \<open>Lines 198--211.\<close>

definition resetSession :: "string \<Rightarrow> chat_state \<Rightarrow> chat_state" where
  "resetSession rnd s =
     (let s1 = s\<lparr>sessionId := generateSessionId rnd, prevRes := JNull, prevResMode := JNull,
                  messages := [], isLoading := False\<rparr> in
      s1\<lparr>messages := messages s1 @ [bot_msg (JStr reset_text)]\<rparr>)"

text \<open>Lines 71--84: the file input's change event; \<open>files\<close> is the selection.\<close>

definition onFileSelected :: "file_ref list \<Rightarrow> chat_state \<Rightarrow> chat_state \<times> http_request option" where
  "onFileSelected files s =
     (case files of
        [] \<Rightarrow> (s, None)
      | f # _ \<Rightarrow> sendUserMessage (Some f) s)"

subsection \<open>The page as an event system\<close>

text \<open>
  The page's events: a method called by the template (\<open>Input\<close> is the two-way
  binding of the text box writing \<open>userMessage\<close>), and the transport answering
  the \<open>i\<close>-th request in flight with a body or with an error. Answers may come in
  any order; nothing queues or cancels requests.
\<close>

record chat_sys =
  comp :: chat_state
  inflight :: "http_request list"

datatype chat_event =
    Input string
  | Send
  | QuickReply string
  | SelectDoc string
  | FileSelected "file_ref list"
  | Respond nat jsval
  | Fail nat
  | Reset string
  | TogglePassword
  | ToggleLiveChat
  | ToggleSize

definition send_effect :: "chat_state \<times> http_request option \<Rightarrow> chat_sys \<Rightarrow> chat_sys" where
  "send_effect r sys =
     \<lparr>comp = fst r, inflight = inflight sys @ (case snd r of None \<Rightarrow> [] | Some q \<Rightarrow> [q])\<rparr>"

fun chat_step :: "chat_event \<Rightarrow> chat_sys \<Rightarrow> chat_sys" where
  "chat_step (Input t) sys = sys\<lparr>comp := (comp sys)\<lparr>userMessage := t\<rparr>\<rparr>"
| "chat_step Send sys = send_effect (sendUserMessage None (comp sys)) sys"
| "chat_step (QuickReply t) sys = send_effect (handleQuickReply t (comp sys)) sys"
| "chat_step (SelectDoc d) sys = sys\<lparr>comp := openUploader d (comp sys)\<rparr>"
| "chat_step (FileSelected fs) sys = send_effect (onFileSelected fs (comp sys)) sys"
| "chat_step (Respond i res) sys =
     (if i < length (inflight sys)
      then \<lparr>comp = fst (chat_next res (comp sys)), inflight = remove_nth i (inflight sys)\<rparr>
      else sys)"
| "chat_step (Fail i) sys =
     (if i < length (inflight sys)
      then \<lparr>comp = chat_error (comp sys), inflight = remove_nth i (inflight sys)\<rparr>
      else sys)"
| "chat_step (Reset rnd) sys = sys\<lparr>comp := resetSession rnd (comp sys)\<rparr>"
| "chat_step TogglePassword sys = sys\<lparr>comp := togglePassword (comp sys)\<rparr>"
| "chat_step ToggleLiveChat sys = sys\<lparr>comp := openLiveChat (comp sys)\<rparr>"
| "chat_step ToggleSize sys = sys\<lparr>comp := toggleChatWindowSize (comp sys)\<rparr>"

definition chat_start :: "string \<Rightarrow> chat_sys" where
  "chat_start rnd = \<lparr>comp = ngOnInit rnd chat_init, inflight = []\<rparr>"

text \<open>The transport's answer to the oldest request in flight: a body, or an
  error.\<close>

fun answer :: "jsval option \<Rightarrow> chat_event" where
  "answer (Some res) = Respond 0 res"
| "answer None = Fail 0"

fun chat_run :: "chat_event list \<Rightarrow> chat_sys \<Rightarrow> chat_sys" where
  "chat_run [] sys = sys"
| "chat_run (e # es) sys = chat_run es (chat_step e sys)"

inductive chat_reach :: "chat_sys \<Rightarrow> bool" where
  start: "chat_reach (chat_start rnd)"
| step: "chat_reach sys \<Longrightarrow> chat_reach (chat_step e sys)"

declare chat_start_def [chat_simps] ngOnInit_def [chat_simps] chat_init_def [chat_simps]
  sendUserMessage_def [chat_simps] send_effect_def [chat_simps] remove_nth_def [chat_simps]

subsection \<open>Lemmas on the handlers\<close>

lemma sendUserMessage_messages:
  "prefix (messages s) (messages (fst (sendUserMessage f s)))"
  by (simp add: sendUserMessage_def Let_def)

lemma chat_next_messages:
  "prefix (messages s) (messages (fst (chat_next res s)))"
  by (simp add: chat_next_def Let_def split: sum.splits)

lemma chat_next_not_loading: "\<not> isLoading (fst (chat_next res s))"
  by (simp add: chat_next_def Let_def split: sum.splits)

lemma send_effect_sendUserMessage_loading:
  assumes "isLoading (comp sys) \<Longrightarrow> inflight sys \<noteq> []"
    and "isLoading (comp (send_effect (sendUserMessage f s) sys))"
    and "isLoading s = isLoading (comp sys)"
  shows "inflight (send_effect (sendUserMessage f s) sys) \<noteq> []"
  using assms by (auto simp: send_effect_def sendUserMessage_def Let_def split: if_splits)

lemma chat_step_messages:
  assumes "\<forall>rnd. e \<noteq> Reset rnd"
  shows "prefix (messages (comp sys)) (messages (comp (chat_step e sys)))"
proof (cases e)
  case (QuickReply t)
  have "prefix (messages (comp sys)) (messages ((comp sys)\<lparr>userMessage := t\<rparr>))" by simp
  then show ?thesis using QuickReply sendUserMessage_messages [of "(comp sys)\<lparr>userMessage := t\<rparr>"]
    by (auto simp: handleQuickReply_def send_effect_def intro: prefix_order.trans)
next
  case (FileSelected fs)
  then show ?thesis
    by (cases fs) (simp_all add: onFileSelected_def send_effect_def sendUserMessage_messages)
qed (use assms in \<open>auto simp: send_effect_def sendUserMessage_messages chat_next_messages
       chat_error_def togglePassword_def openLiveChat_def toggleChatWindowSize_def openUploader_def\<close>)

lemma chat_reach_run: "chat_reach sys \<Longrightarrow> chat_reach (chat_run es sys)"
  by (induction es arbitrary: sys) (auto intro: chat_reach.step)

subsection \<open>Properties of the controller\<close>

text \<open>C4. A failed request leaves the conversation context untouched: after a send
  whose request errors, \<open>prevRes\<close> and \<open>prevResMode\<close> are those from before,
  the log has gained exactly the user's turn and the apology, and nothing is
  loading or in flight.\<close>

theorem send_then_fail_keeps_context:
  assumes "inflight sys = []" "js_trim (userMessage (comp sys)) \<noteq> []"
  shows "prevRes (comp (chat_run [Send, Fail 0] sys)) = prevRes (comp sys) \<and>
         prevResMode (comp (chat_run [Send, Fail 0] sys)) = prevResMode (comp sys) \<and>
         messages (comp (chat_run [Send, Fail 0] sys)) =
           messages (comp sys) @
             [\<lparr>msg_text = JStr (userMessage (comp sys)), msg_isUser = True, msg_file = None\<rparr>,
              bot_msg (JStr apology_text)] \<and>
         inflight (chat_run [Send, Fail 0] sys) = [] \<and> \<not> isLoading (comp (chat_run [Send, Fail 0] sys))"
  using assms js_trim_nonempty [OF assms(2)]
  by (simp add: sendUserMessage_def send_effect_def chat_error_def remove_nth_def)

theorem send_then_fail_keeps_context_witness:
  "inflight (chat_run [Input ''a''] (chat_start ''0.5'')) = [] \<and>
   js_trim (userMessage (comp (chat_run [Input ''a''] (chat_start ''0.5'')))) \<noteq> [] \<and>
   prevRes (comp (chat_run [Send, Fail 0] (chat_run [Input ''a''] (chat_start ''0.5'')))) =
     prevRes (comp (chat_run [Input ''a''] (chat_start ''0.5'')))"
proof -
  have a: "js_trim ''a'' = ''a''" by code_simp
  have h1: "inflight (chat_run [Input ''a''] (chat_start ''0.5'')) = []"
    by (simp add: chat_start_def)
  have h2: "js_trim (userMessage (comp (chat_run [Input ''a''] (chat_start ''0.5'')))) \<noteq> []"
    by (simp add: a)
  show ?thesis using h1 h2 send_then_fail_keeps_context [OF h1 h2] by blast
qed

text \<open>C5. \<open>resetSession\<close> starts a new session: a fresh session id, no
  conversation context, nothing loading, and a log holding only the reset
  greeting.\<close>

theorem resetSession_spec:
  "messages (resetSession rnd s) = [bot_msg (JStr reset_text)] \<and>
   prevRes (resetSession rnd s) = JNull \<and> prevResMode (resetSession rnd s) = JNull \<and>
   \<not> isLoading (resetSession rnd s) \<and> sessionId (resetSession rnd s) = generateSessionId rnd"
  by (simp add: resetSession_def)

text \<open>C6. A successful reply appends one bot turn with the normalised text, makes
  that text the new \<open>prevRes\<close>, takes \<open>prevResMode\<close> from the body's \<open>mode\<close>,
  and clears \<open>isLoading\<close>.\<close>

theorem chat_next_success:
  assumes "\<not> is_nullish res"
    and "normalize_response (obj_get res ''response'') = Inr botText"
  shows "chat_next res s =
           (s\<lparr>isLoading := False, messages := messages s @ [bot_msg botText],
              prevRes := botText, prevResMode := obj_get res ''mode''\<rparr>, None)"
  using assms by (simp add: chat_next_def get_prop_def)

theorem chat_next_success_witness:
  "\<not> is_nullish (JObj [(''response'', JStr ''hi''), (''mode'', JStr ''m'')]) \<and>
   normalize_response (obj_get (JObj [(''response'', JStr ''hi''), (''mode'', JStr ''m'')]) ''response'')
     = Inr (JStr ''hi'') \<and>
   chat_next (JObj [(''response'', JStr ''hi''), (''mode'', JStr ''m'')]) chat_init =
     (chat_init\<lparr>isLoading := False, messages := [bot_msg (JStr ''hi'')],
        prevRes := JStr ''hi'', prevResMode := JStr ''m''\<rparr>, None)"
proof -
  have h1: "\<not> is_nullish (JObj [(''response'', JStr ''hi''), (''mode'', JStr ''m'')])"
    by (simp add: is_nullish_def)
  have h2: "normalize_response (obj_get (JObj [(''response'', JStr ''hi''), (''mode'', JStr ''m'')]) ''response'')
              = Inr (JStr ''hi'')"
    by code_simp
  show ?thesis using h1 h2 chat_next_success [OF h1 h2, of chat_init] by (simp add: chat_init_def)
qed

text \<open>C7. Sending a blank message (whitespace only, in the JavaScript sense of
  \<open>trim\<close>) with no file does nothing: the state is unchanged and no request is
  sent.\<close>

theorem sendUserMessage_blank_rejected:
  "js_trim (userMessage s) = [] \<Longrightarrow> sendUserMessage None s = (s, None)"
  by (simp add: sendUserMessage_def)

theorem sendUserMessage_blank_rejected_witness:
  "js_trim ''  '' = [] \<and>
   sendUserMessage None (chat_init\<lparr>userMessage := ''  ''\<rparr>) = (chat_init\<lparr>userMessage := ''  ''\<rparr>, None)"
proof -
  have h: "js_trim ''  '' = []" by code_simp
  show ?thesis using h sendUserMessage_blank_rejected [of "chat_init\<lparr>userMessage := ''  ''\<rparr>"]
    by (simp add: chat_init_def)
qed

text \<open>C8. Sending a non-blank message appends exactly the user's turn with the
  typed text (untrimmed), clears the input and sets \<open>isLoading\<close>; nothing else
  changes.\<close>

theorem sendUserMessage_appends_user_turn:
  assumes "js_trim (userMessage s) \<noteq> []"
  shows "fst (sendUserMessage None s) =
           s\<lparr>messages := messages s @ [\<lparr>msg_text = JStr (userMessage s), msg_isUser = True, msg_file = None\<rparr>],
             userMessage := [], isLoading := True\<rparr>"
  using assms js_trim_nonempty [OF assms] by (simp add: sendUserMessage_def)

theorem sendUserMessage_appends_user_turn_witness:
  "js_trim ('' a '') \<noteq> [] \<and>
   fst (sendUserMessage None (chat_init\<lparr>userMessage := '' a ''\<rparr>)) =
     chat_init\<lparr>messages := [\<lparr>msg_text = JStr '' a '', msg_isUser = True, msg_file = None\<rparr>],
       isLoading := True\<rparr>"
proof -
  have h: "js_trim (userMessage (chat_init\<lparr>userMessage := '' a ''\<rparr>)) \<noteq> []" by code_simp
  show ?thesis using h sendUserMessage_appends_user_turn [OF h] by (simp add: chat_init_def)
qed

text \<open>C9. The request of a text send carries the typed text, the session id, and
  the previous reply and its mode exactly when they are truthy, converted to
  strings; it carries no file and no document type.\<close>

theorem sendUserMessage_request_fields:
  assumes "js_trim (userMessage s) \<noteq> []"
    and "snd (sendUserMessage None s) = Some q"
  shows "form_field q ''message'' = Some (FStr (userMessage s)) \<and>
         form_field q ''session_id'' = Some (FStr (sessionId s)) \<and>
         form_field q ''prev_res'' = (if truthy (prevRes s) then Some (FStr (js_String (prevRes s))) else None) \<and>
         form_field q ''prev_res_mode'' =
           (if truthy (prevResMode s) then Some (FStr (js_String (prevResMode s))) else None) \<and>
         form_field q ''file'' = None \<and> form_field q ''doc_type'' = None"
  using assms js_trim_nonempty [OF assms(1)]
  by (auto simp: sendUserMessage_def sendMessage_def form_field_def append_if_def)

theorem sendUserMessage_request_fields_witness:
  "js_trim ''hi'' \<noteq> [] \<and>
   form_field (the (snd (sendUserMessage None (chat_init\<lparr>userMessage := ''hi'', prevRes := JStr ''r''\<rparr>))))
     ''prev_res'' = Some (FStr ''r'')"
proof -
  let ?s = "chat_init\<lparr>userMessage := ''hi'', prevRes := JStr ''r''\<rparr>"
  have h1: "js_trim (userMessage ?s) \<noteq> []" by code_simp
  have h2: "snd (sendUserMessage None ?s) = Some (the (snd (sendUserMessage None ?s)))"
    using h1 by (simp add: sendUserMessage_def)
  show ?thesis using h1 sendUserMessage_request_fields [OF h1 h2] by simp
qed

text \<open>C10. In every reachable state of the page, \<open>isLoading\<close> implies that a
  request is in flight: the indicator never spins with nothing to wait for.\<close>

theorem chat_reach_loading_inflight:
  "chat_reach sys \<Longrightarrow> isLoading (comp sys) \<Longrightarrow> inflight sys \<noteq> []"
proof (induction rule: chat_reach.induct)
  case (start rnd)
  then show ?case by (simp add: chat_start_def ngOnInit_def chat_init_def Let_def)
next
  case (step sys e)
  then show ?case
  proof (cases e)
    case Send
    from step.IH step.prems show ?thesis unfolding Send chat_step.simps
      by (rule send_effect_sendUserMessage_loading) simp_all
  next
    case (QuickReply t)
    from step.IH step.prems show ?thesis unfolding QuickReply chat_step.simps handleQuickReply_def
      by (rule send_effect_sendUserMessage_loading) simp_all
  next
    case (FileSelected fs)
    show ?thesis
    proof (cases fs)
      case Nil
      with step FileSelected show ?thesis by (simp add: onFileSelected_def send_effect_def)
    next
      case (Cons f fs')
      from step.IH step.prems show ?thesis
        unfolding FileSelected Cons chat_step.simps onFileSelected_def list.case
        by (rule send_effect_sendUserMessage_loading) simp_all
    qed
  qed (auto simp: chat_error_def chat_next_not_loading resetSession_def Let_def togglePassword_def
          openLiveChat_def toggleChatWindowSize_def openUploader_def remove_nth_def)
qed

theorem chat_reach_loading_inflight_witness:
  "chat_reach (chat_run [Input ''a'', Send] (chat_start ''0.5'')) \<and>
   isLoading (comp (chat_run [Input ''a'', Send] (chat_start ''0.5''))) \<and>
   inflight (chat_run [Input ''a'', Send] (chat_start ''0.5'')) \<noteq> []"
proof -
  have a: "js_trim ''a'' = ''a''" by code_simp
  have r: "chat_reach (chat_run [Input ''a'', Send] (chat_start ''0.5''))"
    by (rule chat_reach_run, rule chat_reach.start)
  have l: "isLoading (comp (chat_run [Input ''a'', Send] (chat_start ''0.5'')))"
    by (simp add: a sendUserMessage_def send_effect_def)
  show ?thesis using r l chat_reach_loading_inflight [OF r l] by blast
qed

text \<open>C11. The conversation log is append-only: along any run of events without a
  reset, every earlier log is a prefix of every later one.\<close>

theorem log_append_only:
  "\<forall>rnd. Reset rnd \<notin> set es \<Longrightarrow> prefix (messages (comp sys)) (messages (comp (chat_run es sys)))"
proof (induction es arbitrary: sys)
  case (Cons e es)
  then have "prefix (messages (comp sys)) (messages (comp (chat_step e sys)))"
    by (intro chat_step_messages) auto
  moreover have "prefix (messages (comp (chat_step e sys))) (messages (comp (chat_run es (chat_step e sys))))"
    using Cons by simp
  ultimately show ?case by (simp add: prefix_order.trans)
qed simp

theorem log_append_only_witness:
  "(\<forall>rnd. Reset rnd \<notin> set [Input ''x'', Send, Fail 0]) \<and>
   prefix (messages (comp (chat_start ''0.5'')))
     (messages (comp (chat_run [Input ''x'', Send, Fail 0] (chat_start ''0.5''))))"
proof -
  have h: "\<forall>rnd. Reset rnd \<notin> set [Input ''x'', Send, Fail 0]" by simp
  show ?thesis using h log_append_only [OF h] by blast
qed

text \<open>C13. \<open>isLoading\<close> is one flag for all requests: after two sends, the
  first answer clears it while the second request is still in flight.\<close>

theorem loading_race:
  "inflight (chat_run [Input ''a'', Send, Input ''b'', Send, Respond 0 res] (chat_start rnd)) \<noteq> [] \<and>
   \<not> isLoading (comp (chat_run [Input ''a'', Send, Input ''b'', Send, Respond 0 res] (chat_start rnd)))"
proof -
  have "js_trim ''a'' = ''a''" "js_trim ''b'' = ''b''" by code_simp+
  then show ?thesis
    by (simp add: chat_simps chat_next_not_loading)
qed

text \<open>C14. Nothing ties an answer to the session that asked: from any state with a
  request in flight, a \<open>resetSession\<close> followed by the answer to that earlier
  request leaves the new session's log holding the reset greeting and the stale
  reply, and makes the stale reply its \<open>prevRes\<close>.\<close>

theorem stale_reply_after_reset:
  assumes "inflight sys \<noteq> []" "\<not> is_nullish res"
    and "normalize_response (obj_get res ''response'') = Inr b"
  shows "messages (comp (chat_run [Reset rnd', Respond 0 res] sys)) = [bot_msg (JStr reset_text), bot_msg b] \<and>
         prevRes (comp (chat_run [Reset rnd', Respond 0 res] sys)) = b \<and>
         sessionId (comp (chat_run [Reset rnd', Respond 0 res] sys)) = generateSessionId rnd'"
  using assms by (simp add: resetSession_def chat_next_def js_simps Let_def)

theorem stale_reply_after_reset_witness:
  "inflight (chat_run [Input ''a'', Send] (chat_start ''0.5'')) \<noteq> [] \<and>
   \<not> is_nullish (JObj [(''response'', JStr ''hi'')]) \<and>
   normalize_response (obj_get (JObj [(''response'', JStr ''hi'')]) ''response'') = Inr (JStr ''hi'') \<and>
   prevRes (comp (chat_run [Reset ''0.7'', Respond 0 (JObj [(''response'', JStr ''hi'')])]
                    (chat_run [Input ''a'', Send] (chat_start ''0.5'')))) = JStr ''hi''"
proof -
  have a: "js_trim ''a'' = ''a''" by code_simp
  have h1: "inflight (chat_run [Input ''a'', Send] (chat_start ''0.5'')) \<noteq> []"
    by (simp add: a chat_simps)
  have h2: "\<not> is_nullish (JObj [(''response'', JStr ''hi'')])" by (simp add: js_simps)
  have h3: "normalize_response (obj_get (JObj [(''response'', JStr ''hi'')]) ''response'') = Inr (JStr ''hi'')"
    by code_simp
  show ?thesis using h1 h2 h3 stale_reply_after_reset [OF h1 h2 h3, of "''0.7''"] by blast
qed

text \<open>C15. \<open>generateSessionId\<close> keeps only nine characters of the random draw:
  whatever follows the eleventh character of the draw is ignored, so distinct
  draws give the same session id.\<close>

theorem generateSessionId_collision:
  "11 \<le> length rnd \<Longrightarrow> generateSessionId (rnd @ x) = generateSessionId rnd"
  by (simp add: generateSessionId_def)

theorem generateSessionId_collision_witness:
  "11 \<le> length ''0.abcdefghi'' \<and>
   generateSessionId (''0.abcdefghi'' @ ''j'') = generateSessionId (''0.abcdefghi'' @ ''k'')"
proof -
  have h: "11 \<le> length ''0.abcdefghi''" by simp
  show ?thesis
    using h generateSessionId_collision [OF h, of "''j''"] generateSessionId_collision [OF h, of "''k''"]
    by simp
qed

text \<open>C18. A \<open>null\<close> (or absent) response body makes \<open>res.response\<close> throw a
  \<open>TypeError\<close> after \<open>isLoading\<close> has been cleared: the attempt leaves no
  entry in the log and the handler does not complete.\<close>

theorem chat_next_null_body:
  "is_nullish res \<Longrightarrow> chat_next res s = (s\<lparr>isLoading := False\<rparr>, Some TypeError)"
  by (simp add: chat_next_def get_prop_def)

theorem chat_next_null_body_witness:
  "is_nullish JNull \<and> chat_next JNull chat_init = (chat_init\<lparr>isLoading := False\<rparr>, Some TypeError)"
proof -
  have h: "is_nullish JNull" by (simp add: is_nullish_def)
  show ?thesis using h chat_next_null_body [OF h, of chat_init] by simp
qed

text \<open>C22. Selecting a file sends the fixed text \<open>Uploaded document\<close> with the
  file and the document type, logs an \<open>Uploaded: name (type)\<close> turn, and clears
  the input: text typed before the upload is neither sent nor kept.\<close>

theorem file_upload_drops_text:
  "onFileSelected (f # fs) s =
     (s\<lparr>messages := messages s @
          [\<lparr>msg_text = JStr (''Uploaded: '' @ file_name f @ '' ('' @ selectedDocType s @ '')''),
            msg_isUser = True, msg_file = Some f\<rparr>],
        userMessage := [], isLoading := True\<rparr>,
      Some (sendMessage ''Uploaded document'' (sessionId s) (prevRes s) (prevResMode s) (Some f)
              (JStr (selectedDocType s))))"
  by (simp add: onFileSelected_def sendUserMessage_def)


text \<open>C34. An upload started from one of the offered document buttons sends that
  document type with the file; a file chosen without a button (the type still
  empty) is sent with no \<open>doc_type\<close> at all.\<close>

theorem upload_sends_doc_type:
  assumes "d \<in> set documents"
  shows "form_field (the (snd (onFileSelected (f # fs) (openUploader d s)))) ''doc_type'' = Some (FStr d) \<and>
         form_field (the (snd (onFileSelected (f # fs) (openUploader d s)))) ''file'' = Some (FFile f) \<and>
         form_field (the (snd (onFileSelected (f # fs) (s\<lparr>selectedDocType := []\<rparr>)))) ''doc_type'' = None"
proof -
  have "d \<noteq> []" using assms by (auto simp: documents_def)
  then show ?thesis
    by (simp add: onFileSelected_def openUploader_def sendUserMessage_def sendMessage_def
                  form_field_def append_if_def Let_def)
qed

theorem upload_sends_doc_type_witness:
  "''Ration Card'' \<in> set documents \<and>
   form_field (the (snd (onFileSelected [\<lparr>file_name = ''r.pdf''\<rparr>] (openUploader ''Ration Card'' chat_init))))
     ''doc_type'' = Some (FStr ''Ration Card'')"
proof -
  have h: "''Ration Card'' \<in> set documents" by (simp add: documents_def)
  show ?thesis using h upload_sends_doc_type [OF h, of "\<lparr>file_name = ''r.pdf''\<rparr>" "[]" chat_init] by simp
qed

lemma chat_step_answer:
  "inflight sys \<noteq> [] \<Longrightarrow>
   inflight (chat_step (answer a) sys) = tl (inflight sys) \<and> \<not> isLoading (comp (chat_step (answer a) sys))"
  by (cases a) (simp_all add: remove_nth_def chat_next_not_loading chat_error_def drop_Suc)

text \<open>C35. The page always settles: whatever state it is in, once the transport
  has answered every request in flight (each with a body or an error, oldest
  first), nothing is in flight and the loading indicator is off.\<close>

theorem answers_settle:
  assumes "length ans = length (inflight sys)" "ans \<noteq> []"
  shows "inflight (chat_run (map answer ans) sys) = [] \<and> \<not> isLoading (comp (chat_run (map answer ans) sys))"
  using assms
proof (induction ans arbitrary: sys)
  case (Cons a ans)
  then have ne: "inflight sys \<noteq> []" by auto
  show ?case
  proof (cases ans)
    case Nil
    with Cons.prems obtain x where "inflight sys = [x]" by (cases "inflight sys") auto
    with chat_step_answer [OF ne, of a] Nil show ?thesis by simp
  next
    case (Cons b ans')
    then have "length ans = length (inflight (chat_step (answer a) sys))" "ans \<noteq> []"
      using Cons.prems chat_step_answer [OF ne, of a] by simp_all
    then show ?thesis using Cons.IH by simp
  qed
qed simp

theorem answers_settle_witness:
  "length [Some (JObj [(''response'', JStr ''x'')]), None] =
     length (inflight (chat_run [Input ''a'', Send, Input ''b'', Send] (chat_start ''0.5''))) \<and>
   [Some (JObj [(''response'', JStr ''x'')]), None] \<noteq> [] \<and>
   \<not> isLoading (comp (chat_run (map answer [Some (JObj [(''response'', JStr ''x'')]), None])
                        (chat_run [Input ''a'', Send, Input ''b'', Send] (chat_start ''0.5''))))"
proof -
  have a: "js_trim ''a'' = ''a''" "js_trim ''b'' = ''b''" by code_simp+
  have h1: "length [Some (JObj [(''response'', JStr ''x'')]), None] =
              length (inflight (chat_run [Input ''a'', Send, Input ''b'', Send] (chat_start ''0.5'')))"
    by (simp add: a chat_start_def sendUserMessage_def send_effect_def)
  have h2: "[Some (JObj [(''response'', JStr ''x'')]), None] \<noteq> []" by simp
  show ?thesis using h1 h2 answers_settle [OF h1 h2] by blast
qed

text \<open>C36. A session id is \<open>session_\<close> followed by at most nine characters of the
  random draw, and by exactly nine when the draw prints at least eleven
  characters.\<close>

theorem generateSessionId_bounds:
  "prefix ''session_'' (generateSessionId rnd) \<and> length (generateSessionId rnd) \<le> 17 \<and>
   (11 \<le> length rnd \<longrightarrow> length (generateSessionId rnd) = 17)"
  by (simp add: generateSessionId_def)

theorem generateSessionId_bounds_witness:
  "11 \<le> length ''0.4fzyo82mvyr'' \<and> length (generateSessionId ''0.4fzyo82mvyr'') = 17"
  using generateSessionId_bounds [of "''0.4fzyo82mvyr''"] by simp

end
