(* ===== verification/Display.thy ===== *)
theory Display
  imports JsValue
begin

text \<open>
  \<open>LoginComponent.formatMessage\<close> (\<open>login.component.ts\<close>, lines 253--261), the
  render-time markup of a message: a falsy argument gives the empty string; otherwise
  \<open>text.replace(/\*\*(.*?)\*\*/g, '<b>$1</b>')\<close> and then
  \<open>replace(/\n/g, '<br>')\<close>. The argument is typed \<open>string\<close> but at run time it
  is the message's \<open>text\<close>, which the normaliser can leave a number or an array
  (theory \<open>Normalize\<close>); calling \<open>replace\<close> on such a value throws a
  \<open>TypeError\<close>, which is the \<open>Inl\<close> result here.

  The global replace is modelled as the regular-expression engine runs it: at each
  position it tries a match (\<open>**\<close>, then the shortest run of characters other
  than line terminators that is followed by \<open>**\<close>); on success it emits the
  replacement and resumes after the match, otherwise it copies one character and
  moves on. On UTF-8 bytes the line terminators are LF, CR and the encodings of
  U+2028 and U+2029; the asterisk is ASCII and never occurs inside a multi-byte
  sequence, so stepping over bytes finds the same matches as stepping over code
  units.
\<close>

definition is_line_term_start :: "string \<Rightarrow> bool" where
  "is_line_term_start s \<longleftrightarrow>
     (case s of
        [] \<Rightarrow> False
      | c # _ \<Rightarrow> c = newline \<or> c = CHR 0x0D \<or>
                 prefix [CHR 0xE2, CHR 0x80, CHR 0xA8] s \<or> prefix [CHR 0xE2, CHR 0x80, CHR 0xA9] s)"

text \<open>The lazy group \<open>(.*?)\<close> followed by \<open>\*\*\<close>: the content read so far is
  \<open>acc\<close> (reversed); the result is the content and the input after the closing
  marker.\<close>

fun find_close :: "string \<Rightarrow> string \<Rightarrow> (string \<times> string) option" where
  "find_close acc s =
     (if prefix ''**'' s then Some (rev acc, drop 2 s)
      else (case s of
              [] \<Rightarrow> None
            | c # r \<Rightarrow> if is_line_term_start s then None else find_close (c # acc) r))"

declare find_close.simps [simp del]

function bold_replace :: "string \<Rightarrow> string" where
  "bold_replace s =
     (case s of
        [] \<Rightarrow> []
      | c # r \<Rightarrow>
          if prefix ''**'' s then
            (case find_close [] (drop 2 s) of
               Some (m, rest) \<Rightarrow> ''<b>'' @ m @ ''</b>'' @ bold_replace rest
             | None \<Rightarrow> c # bold_replace r)
          else c # bold_replace r)"
  by pat_completeness auto
termination
proof -
  have close: "find_close acc t = Some (m, rest) \<Longrightarrow> length rest \<le> length t" for acc t m rest
  proof (induction acc t rule: find_close.induct)
    case (1 acc t)
    then show ?case
      by (subst (asm) find_close.simps) (fastforce split: if_splits list.splits)
  qed
  show ?thesis
    by (relation "measure length") (auto dest!: close)
qed

declare bold_replace.simps [simp del]

text \<open>\<open>replace(/\n/g, '<br>')\<close>.\<close>

definition br_replace :: "string \<Rightarrow> string" where
  "br_replace s = concat (map (\<lambda>c. if c = newline then ''<br>'' else [c]) s)"

definition formatMessage :: "jsval \<Rightarrow> js_error + string" where
  "formatMessage text =
     (if \<not> truthy text then Inr []
      else (case text of
              JStr s \<Rightarrow> Inr (br_replace (bold_replace s))
            | _ \<Rightarrow> Inl TypeError))"

text \<open>The expected rendering of a plain piece: each newline written as the
  four characters \<open><br>\<close>.\<close>

abbreviation newline_to_br :: "string \<Rightarrow> string" where
  "newline_to_br t \<equiv> concat (map (\<lambda>c. if c = newline then [CHR ''<'', CHR ''b'', CHR ''r'', CHR ''>''] else [c]) t)"

subsection \<open>Lemmas on the two replacements\<close>

abbreviation bold_free :: "string \<Rightarrow> bool" where
  "bold_free m \<equiv> set m \<inter> {CHR ''*'', newline, CHR 0x0D, CHR 0xE2} = {}"

lemma find_close_plain:
  "bold_free m \<Longrightarrow> find_close acc (m @ ''**'' @ rest) = Some (rev acc @ m, rest)"
proof (induction m arbitrary: acc)
  case Nil
  then show ?case by (simp add: find_close.simps)
next
  case (Cons c m)
  then have "find_close acc (c # m @ ''**'' @ rest) = find_close (c # acc) (m @ ''**'' @ rest)"
    by (subst find_close.simps) (auto simp: is_line_term_start_def)
  with Cons show ?case by simp
qed

lemma bold_replace_Cons_plain [simp]: "c \<noteq> CHR ''*'' \<Longrightarrow> bold_replace (c # s) = c # bold_replace s"
  by (subst bold_replace.simps) simp

lemma bold_replace_Nil [simp]: "bold_replace [] = []"
  by (subst bold_replace.simps) simp

lemma bold_replace_no_star: "CHR ''*'' \<notin> set s \<Longrightarrow> bold_replace s = s"
proof (induction s)
  case (Cons c s)
  then have "c \<noteq> CHR ''*''" by auto
  with Cons show ?case by simp
qed simp

lemma bold_replace_pair:
  "bold_free m \<Longrightarrow>
   bold_replace (CHR ''*'' # CHR ''*'' # m @ CHR ''*'' # CHR ''*'' # rest) =
     ''<b>'' @ m @ ''</b>'' @ bold_replace rest"
  using find_close_plain [of m "[]" rest] by (subst bold_replace.simps) simp

lemma br_replace_simps [simp]:
  "br_replace [] = []"
  "br_replace (c # s) = (if c = newline then ''<br>'' else [c]) @ br_replace s"
  "br_replace (xs @ ys) = br_replace xs @ br_replace ys"
  by (simp_all add: br_replace_def)

lemma br_replace_no_newline: "newline \<notin> set s \<Longrightarrow> br_replace s = s"
proof (induction s)
  case (Cons c s)
  then have "c \<noteq> newline" by auto
  with Cons show ?case by simp
qed simp

subsection \<open>Properties of formatMessage\<close>

lemma bold_replace_append_plain:
  "CHR ''*'' \<notin> set t \<Longrightarrow> bold_replace (t @ s) = t @ bold_replace s"
proof (induction t)
  case (Cons c t)
  then have "c \<noteq> CHR ''*''" by auto
  with Cons show ?case by simp
qed simp

lemma bold_replace_segments:
  assumes "\<forall>(t, m) \<in> set ps. CHR ''*'' \<notin> set t \<and> bold_free m"
  shows "bold_replace (concat (map (\<lambda>(t, m). t @ ''**'' @ m @ ''**'') ps) @ rest) =
           concat (map (\<lambda>(t, m). t @ ''<b>'' @ m @ ''</b>'') ps) @ bold_replace rest"
  using assms
  by (induction ps) (auto simp: bold_replace_append_plain bold_replace_pair)

lemma br_replace_is_newline_to_br: "br_replace s = newline_to_br s"
  by (simp add: br_replace_def)

lemma newline_to_br_no_newline: "newline \<notin> set s \<Longrightarrow> newline_to_br s = s"
  using br_replace_no_newline by (simp add: br_replace_is_newline_to_br)

text \<open>C24. \<open>formatMessage\<close> on any text made of plain pieces and marker pairs:
  every pair \<open>**m**\<close> (with \<open>m\<close> free of asterisks and line terminators) becomes
  \<open><b>m</b>\<close>, each pair closing at the nearest marker (the group is lazy) and
  every pair being replaced (the replace is global), and every newline of the
  plain pieces becomes \<open><br>\<close>.\<close>

theorem formatMessage_segments:
  assumes "\<forall>(t, m) \<in> set ps. CHR ''*'' \<notin> set t \<and> bold_free m" "CHR ''*'' \<notin> set rest"
  shows "formatMessage (JStr (concat (map (\<lambda>(t, m). t @ ''**'' @ m @ ''**'') ps) @ rest)) =
           Inr (concat (map (\<lambda>(t, m). newline_to_br t @ ''<b>'' @ m @ ''</b>'') ps) @ newline_to_br rest)"
proof (cases "ps = [] \<and> rest = []")
  case True
  then show ?thesis by (simp add: formatMessage_def)
next
  case False
  then have ne: "concat (map (\<lambda>(t, m). t @ ''**'' @ m @ ''**'') ps) @ rest \<noteq> []"
    by (cases ps) auto
  have m: "newline_to_br (concat (map (\<lambda>(t, m). t @ ''<b>'' @ m @ ''</b>'') ps)) =
             concat (map (\<lambda>(t, m). newline_to_br t @ ''<b>'' @ m @ ''</b>'') ps)"
    using assms(1) by (induction ps) (auto simp: newline_to_br_no_newline)
  have b: "bold_replace (concat (map (\<lambda>(t, m). t @ ''**'' @ m @ ''**'') ps) @ rest) =
             concat (map (\<lambda>(t, m). t @ ''<b>'' @ m @ ''</b>'') ps) @ rest"
    using bold_replace_segments [OF assms(1), of rest] bold_replace_no_star [OF assms(2)] by simp
  show ?thesis
    using ne m b by (simp add: formatMessage_def br_replace_is_newline_to_br)
qed

theorem formatMessage_segments_witness:
  "CHR ''*'' \<notin> set ('' line1'' @ [newline] @ ''line2'') \<and>
   formatMessage (JStr (''**bold** line1'' @ [newline] @ ''line2'')) = Inr ''<b>bold</b> line1<br>line2''"
proof -
  have h1: "\<forall>(t, m) \<in> set [([], ''bold'')]. CHR ''*'' \<notin> set t \<and> bold_free m" by simp
  have h2: "CHR ''*'' \<notin> set ('' line1'' @ [newline] @ ''line2'')" by simp
  show ?thesis using h1 h2 formatMessage_segments [OF h1 h2] by simp
qed

text \<open>C25. A truthy argument that is not a string (a number or an array the
  normaliser passed through) makes \<open>formatMessage\<close> throw a \<open>TypeError\<close>:
  it has no \<open>replace\<close> method.\<close>

theorem formatMessage_nonstring_throws:
  "truthy v \<Longrightarrow> typeof v \<noteq> ''string'' \<Longrightarrow> formatMessage v = Inl TypeError"
  by (cases v) (simp_all add: formatMessage_def)

theorem formatMessage_nonstring_throws_witness:
  "truthy (JNum 42 0) \<and> typeof (JNum 42 0) \<noteq> ''string'' \<and> formatMessage (JNum 42 0) = Inl TypeError"
proof -
  have h1: "truthy (JNum 42 0)" and h2: "typeof (JNum 42 0) \<noteq> ''string''" by simp_all
  show ?thesis using h1 h2 formatMessage_nonstring_throws [OF h1 h2] by simp
qed

lemma bold_replace_Cons_other:
  assumes "\<not> prefix ''**'' (c # r)"
  shows "bold_replace (c # r) = c # bold_replace r"
  by (subst bold_replace.simps) (simp only: list.case if_not_P [OF assms])

lemma find_close_length:
  "find_close acc t = Some (m, rest) \<Longrightarrow> length m + 2 + length rest = length acc + length t"
proof (induction acc t rule: find_close.induct)
  case (1 acc t)
  then show ?case
    by (subst (asm) find_close.simps) (fastforce split: if_splits list.splits simp: prefix_def)
qed

text \<open>C37. The bold replacement grows the text by at most three quarters: each
  replaced pair of markers (four characters at least) gains three characters.\<close>

theorem bold_replace_length:
  "4 * length (bold_replace s) \<le> 7 * length s"
proof (induction s rule: bold_replace.induct)
  case (1 s)
  show ?case
  proof (cases "prefix ''**'' s")
    case pre: True
    then obtain r where s: "s = CHR ''*'' # CHR ''*'' # r" by (auto simp: prefix_def)
    show ?thesis
    proof (cases "find_close [] r")
      case None
      with 1 s have "4 * length (bold_replace (CHR ''*'' # r)) \<le> 7 * length (CHR ''*'' # r)" by simp
      with s None show ?thesis by (subst bold_replace.simps) simp
    next
      case (Some x)
      obtain m rest where x: "x = (m, rest)" by (cases x)
      with 1 s Some have ih: "4 * length (bold_replace rest) \<le> 7 * length rest" by simp
      from Some x have "length m + 2 + length rest = length r"
        using find_close_length [of "[]" r m rest] by simp
      with ih s Some x show ?thesis by (subst bold_replace.simps) simp
    qed
  next
    case False
    show ?thesis
    proof (cases s)
      case (Cons c r)
      with 1 False have "4 * length (bold_replace r) \<le> 7 * length r" by simp
      with Cons False show ?thesis by (simp add: bold_replace_Cons_other)
    qed simp
  qed
qed

end
