(* ===== verification/Playback.thy ===== *)
theory Playback
  imports ChatService
begin

text \<open>
  Speech playback of \<open>LoginComponent\<close> (\<open>login.component.ts\<close>, lines 224--252):
  the fields \<open>currentAudio\<close> and \<open>isPlaying\<close>, the method
  \<open>playTextToSpeech\<close>, and the callbacks it registers: the \<open>next\<close> and
  \<open>error\<close> callbacks of the \<open>getAudio\<close> request and the \<open>onended\<close> handler
  of each audio element it creates. The audio elements are an explicit store (a
  list indexed by element), because the claims depend on which element a handler
  closes over; each keeps the object URL it was created from, and the URLs created
  by \<open>URL.createObjectURL\<close> are listed in \<open>obj_urls\<close> (the code never revokes
  one). The environment answers pending \<open>getAudio\<close> requests in any order and
  ends any playing element.
\<close>

datatype audio_status = APlaying | APaused | AEnded

record audio =
  a_url :: nat
  a_text :: string
  a_status :: audio_status

record play_state =
  currentAudio :: "nat option"
  isPlaying :: bool
  audios :: "audio list"
  pending :: "string list"
  obj_urls :: "nat list"

definition play_init :: play_state where
  "play_init = \<lparr>currentAudio = None, isPlaying = False, audios = [], pending = [], obj_urls = []\<rparr>"

text \<open>Lines 227--237: stop the current element, then request the audio.\<close>

definition playTextToSpeech :: "string \<Rightarrow> play_state \<Rightarrow> play_state \<times> http_request" where
  "playTextToSpeech text s =
     (let s1 = (case currentAudio s of
                  Some a \<Rightarrow>
                    s\<lparr>audios := (audios s)[a := (audios s ! a)\<lparr>a_status := APaused\<rparr>],
                      currentAudio := None, isPlaying := False\<rparr>
                | None \<Rightarrow> s)
      in (s1\<lparr>pending := pending s1 @ [text]\<rparr>, getAudio text))"

text \<open>Lines 238--247: the \<open>next\<close> callback with the blob of \<open>text\<close>: a new object
  URL, a new element playing it, made current, with its \<open>onended\<close> handler.\<close>

definition audio_next :: "string \<Rightarrow> play_state \<Rightarrow> play_state" where
  "audio_next text s =
     (let url = length (obj_urls s); a = length (audios s) in
      s\<lparr>obj_urls := obj_urls s @ [url],
        audios := audios s @ [\<lparr>a_url = url, a_text = text, a_status = APlaying\<rparr>],
        currentAudio := Some a, isPlaying := True\<rparr>)"

text \<open>Lines 248--250: the \<open>error\<close> callback only logs.\<close>

definition audio_error :: "play_state \<Rightarrow> play_state" where
  "audio_error s = s"

text \<open>Lines 243--246: element \<open>a\<close> finishes; its handler clears the fields
  whichever element is current.\<close>

definition audio_ended :: "nat \<Rightarrow> play_state \<Rightarrow> play_state" where
  "audio_ended a s =
     s\<lparr>audios := (audios s)[a := (audios s ! a)\<lparr>a_status := AEnded\<rparr>],
       isPlaying := False, currentAudio := None\<rparr>"

subsection \<open>Playback as an event system\<close>

datatype play_event = Play string | FetchOk nat | FetchErr nat | Ended nat

fun play_step :: "play_event \<Rightarrow> play_state \<Rightarrow> play_state" where
  "play_step (Play t) s = fst (playTextToSpeech t s)"
| "play_step (FetchOk i) s =
     (if i < length (pending s)
      then audio_next (pending s ! i) (s\<lparr>pending := remove_nth i (pending s)\<rparr>) else s)"
| "play_step (FetchErr i) s =
     (if i < length (pending s) then audio_error (s\<lparr>pending := remove_nth i (pending s)\<rparr>) else s)"
| "play_step (Ended a) s =
     (if a < length (audios s) \<and> a_status (audios s ! a) = APlaying then audio_ended a s else s)"

fun play_run :: "play_event list \<Rightarrow> play_state \<Rightarrow> play_state" where
  "play_run [] s = s"
| "play_run (e # es) s = play_run es (play_step e s)"

inductive play_reach :: "play_state \<Rightarrow> bool" where
  init: "play_reach play_init"
| step: "play_reach s \<Longrightarrow> play_reach (play_step e s)"

text \<open>The discipline under which the specification's single-playback promise is
  meant: \<open>play\<close> is called only when no audio request is pending.\<close>

inductive play_reach_seq :: "play_state \<Rightarrow> bool" where
  init: "play_reach_seq play_init"
| play: "play_reach_seq s \<Longrightarrow> pending s = [] \<Longrightarrow> play_reach_seq (play_step (Play t) s)"
| other: "play_reach_seq s \<Longrightarrow> \<forall>t. e \<noteq> Play t \<Longrightarrow> play_reach_seq (play_step e s)"

definition playing_ids :: "play_state \<Rightarrow> nat list" where
  "playing_ids s = filter (\<lambda>a. a_status (audios s ! a) = APlaying) [0..<length (audios s)]"

text \<open>The fields agree with the store: \<open>isPlaying\<close> exactly when there is a
  current element, and the current element is playing.\<close>

definition play_inv :: "play_state \<Rightarrow> bool" where
  "play_inv s \<longleftrightarrow>
     (isPlaying s \<longleftrightarrow> currentAudio s \<noteq> None) \<and>
     (case currentAudio s of
        None \<Rightarrow> True
      | Some a \<Rightarrow> a < length (audios s) \<and> a_status (audios s ! a) = APlaying)"

text \<open>Under the discipline: every playing element is the current one, at most one
  request is pending, and a pending request means nothing is current.\<close>

definition seq_inv :: "play_state \<Rightarrow> bool" where
  "seq_inv s \<longleftrightarrow>
     play_inv s \<and>
     list_all (\<lambda>a. a_status (audios s ! a) = APlaying \<longrightarrow> currentAudio s = Some a) [0..<length (audios s)] \<and>
     length (pending s) \<le> 1 \<and> (pending s \<noteq> [] \<longrightarrow> currentAudio s = None)"

declare play_init_def [play_simps] playTextToSpeech_def [play_simps] audio_next_def [play_simps]
  audio_ended_def [play_simps] audio_error_def [play_simps] remove_nth_def [play_simps]

subsection \<open>Lemmas on the playback handlers\<close>

lemma play_inv_init: "play_inv play_init"
  by (simp add: play_inv_def play_init_def)

lemma play_inv_step: "play_inv s \<Longrightarrow> play_inv (play_step e s)"
  by (cases e)
     (auto simp: play_inv_def playTextToSpeech_def audio_next_def audio_error_def audio_ended_def
                 Let_def nth_append split: option.splits)

lemma obj_urls_step:
  "obj_urls s = [0..<length (audios s)] \<Longrightarrow>
   obj_urls (play_step e s) = [0..<length (audios (play_step e s))]"
  by (cases e)
     (auto simp: playTextToSpeech_def audio_next_def audio_error_def audio_ended_def Let_def
           split: option.splits)

lemma play_inv_pending [simp]: "play_inv (s\<lparr>pending := p\<rparr>) = play_inv s"
  by (simp add: play_inv_def split: option.splits)

lemma seq_inv_init: "seq_inv play_init"
  by (simp add: seq_inv_def play_inv_init) (simp add: play_init_def)

lemma seq_inv_play:
  assumes inv: "seq_inv s" and nop: "pending s = []"
  shows "seq_inv (play_step (Play t) s)"
proof (cases "currentAudio s")
  case None
  with inv have "\<forall>b<length (audios s). a_status (audios s ! b) \<noteq> APlaying"
    by (auto simp: seq_inv_def list_all_iff)
  with None inv nop show ?thesis
    by (simp add: seq_inv_def playTextToSpeech_def list_all_iff)
next
  case (Some a)
  with inv have a: "a < length (audios s)" and only: "\<forall>b<length (audios s). a_status (audios s ! b) = APlaying \<longrightarrow> b = a"
    by (auto simp: seq_inv_def play_inv_def list_all_iff)
  have "\<forall>b<length (audios s). a_status ((audios s)[a := (audios s ! a)\<lparr>a_status := APaused\<rparr>] ! b) \<noteq> APlaying"
    using a only by (auto simp: nth_list_update)
  with Some nop show ?thesis
    by (simp add: seq_inv_def play_inv_def playTextToSpeech_def list_all_iff)
qed

lemma seq_inv_none_playing:
  "seq_inv s \<Longrightarrow> currentAudio s = None \<Longrightarrow> b < length (audios s) \<Longrightarrow> a_status (audios s ! b) \<noteq> APlaying"
  by (auto simp: seq_inv_def list_all_iff)

lemma seq_inv_other:
  assumes inv: "seq_inv s" and np: "\<forall>t. e \<noteq> Play t"
  shows "seq_inv (play_step e s)"
proof (cases e)
  case (Play t)
  with np show ?thesis by simp
next
  case (FetchOk i)
  show ?thesis
  proof (cases "i < length (pending s)")
    case True
    with inv have i: "i = 0" and p1: "length (pending s) = 1" and none: "currentAudio s = None"
      by (auto simp: seq_inv_def)
    have "remove_nth i (pending s) = []" using i p1 by (simp add: remove_nth_def)
    moreover have "\<forall>b<length (audios s). a_status (audios s ! b) \<noteq> APlaying"
      using inv none seq_inv_none_playing by blast
    ultimately show ?thesis using FetchOk True
      by (auto simp: seq_inv_def play_inv_def audio_next_def list_all_iff nth_append Let_def)
  next
    case False
    with FetchOk inv show ?thesis by simp
  qed
next
  case (FetchErr i)
  show ?thesis
  proof (cases "i < length (pending s)")
    case True
    with inv have "currentAudio s = None" and "length (remove_nth i (pending s)) \<le> 1"
      by (auto simp: seq_inv_def remove_nth_def)
    with FetchErr True inv show ?thesis
      by (simp add: seq_inv_def audio_error_def)
  next
    case False
    with FetchErr inv show ?thesis by simp
  qed
next
  case (Ended a)
  show ?thesis
  proof (cases "a < length (audios s) \<and> a_status (audios s ! a) = APlaying")
    case True
    with inv have "currentAudio s = Some a" by (auto simp: seq_inv_def list_all_iff)
    with inv have only: "\<forall>b<length (audios s). a_status (audios s ! b) = APlaying \<longrightarrow> b = a"
      by (auto simp: seq_inv_def list_all_iff)
    have "\<forall>b<length (audios s). a_status ((audios s)[a := (audios s ! a)\<lparr>a_status := AEnded\<rparr>] ! b) \<noteq> APlaying"
      using True only by (auto simp: nth_list_update)
    with Ended True inv show ?thesis
      by (simp add: seq_inv_def play_inv_def audio_ended_def list_all_iff)
  next
    case False
    with Ended inv show ?thesis by auto
  qed
qed

lemma seq_inv_no_playing: "seq_inv s \<Longrightarrow> currentAudio s = None \<Longrightarrow> playing_ids s = []"
  unfolding playing_ids_def using seq_inv_none_playing by (simp add: filter_empty_conv)

lemma seq_inv_playing_current:
  "seq_inv s \<Longrightarrow> x \<in> set (playing_ids s) \<Longrightarrow> currentAudio s = Some x"
  by (simp add: seq_inv_def list_all_iff playing_ids_def)

lemma seq_inv_playing_ids:
  assumes inv: "seq_inv s" shows "length (playing_ids s) \<le> 1"
proof (cases "currentAudio s")
  case None
  then show ?thesis using seq_inv_no_playing [OF inv] by simp
next
  case (Some a)
  then have "\<forall>x\<in>set (playing_ids s). x = a" using seq_inv_playing_current [OF inv] by fastforce
  then show ?thesis by (rule distinct_all_eq_length [rotated]) (simp add: playing_ids_def)
qed

lemma play_reach_run: "play_reach s \<Longrightarrow> play_reach (play_run es s)"
  by (induction es arbitrary: s) (auto intro: play_reach.step)

lemma play_reach_play_inv: "play_reach s \<Longrightarrow> play_inv s"
  by (induction rule: play_reach.induct) (simp_all add: play_inv_init play_inv_step)

subsection \<open>Properties of playback\<close>

text \<open>C26. Under any interleaving of calls, answers and endings, \<open>isPlaying\<close>
  holds exactly when there is a current element, and the current element exists
  and is playing.\<close>

theorem play_reach_current_playing:
  "play_reach s \<Longrightarrow>
   (isPlaying s \<longleftrightarrow> currentAudio s \<noteq> None) \<and>
   (currentAudio s = Some a \<longrightarrow> a < length (audios s) \<and> a_status (audios s ! a) = APlaying)"
proof -
  assume "play_reach s"
  then have "play_inv s" by (rule play_reach_play_inv)
  then show ?thesis by (auto simp: play_inv_def)
qed

theorem play_reach_current_playing_witness:
  "play_reach (play_run [Play ''A'', FetchOk 0] play_init) \<and>
   isPlaying (play_run [Play ''A'', FetchOk 0] play_init) \<and>
   a_status (audios (play_run [Play ''A'', FetchOk 0] play_init) ! 0) = APlaying"
proof -
  have r: "play_reach (play_run [Play ''A'', FetchOk 0] play_init)"
    by (rule play_reach_run, rule play_reach.init)
  have c: "currentAudio (play_run [Play ''A'', FetchOk 0] play_init) = Some 0"
    by (simp add: play_simps)
  show ?thesis using r c play_reach_current_playing [OF r, of 0] by simp
qed

text \<open>C27. When \<open>play\<close> is only called with no audio request pending, at most
  one element is playing at any time (the specification's single-playback
  promise, under that discipline).\<close>

theorem seq_single_playback: "play_reach_seq s \<Longrightarrow> length (playing_ids s) \<le> 1"
proof -
  assume "play_reach_seq s"
  then have "seq_inv s"
    by (induction rule: play_reach_seq.induct)
       (auto intro: seq_inv_init seq_inv_play seq_inv_other simp del: play_step.simps)
  then show ?thesis by (rule seq_inv_playing_ids)
qed

theorem seq_single_playback_witness:
  "play_reach_seq (play_run [Play ''A'', FetchOk 0, Play ''B'', FetchOk 0] play_init) \<and>
   playing_ids (play_run [Play ''A'', FetchOk 0, Play ''B'', FetchOk 0] play_init) = [1]"
proof -
  let ?s1 = "play_step (Play ''A'') play_init"
  let ?s2 = "play_step (FetchOk 0) ?s1"
  let ?s3 = "play_step (Play ''B'') ?s2"
  have "play_reach_seq ?s1" by (rule play_reach_seq.play, rule play_reach_seq.init) (simp add: play_init_def)
  then have "play_reach_seq ?s2" by (rule play_reach_seq.other) simp
  then have "play_reach_seq ?s3"
    by (rule play_reach_seq.play) (simp add: play_simps)
  then have r: "play_reach_seq (play_step (FetchOk 0) ?s3)" by (rule play_reach_seq.other) simp
  have p: "playing_ids (play_step (FetchOk 0) ?s3) = [1]"
    by (simp add: play_simps playing_ids_def
                  upt_rec)
  show ?thesis using r p seq_single_playback [OF r] by simp
qed

text \<open>C28. Without that discipline the promise fails from any state:
  \<open>play(A)\<close> then \<open>play(B)\<close> before A's audio arrives, both requests then
  answered, leaves the two new elements playing at once.\<close>

theorem concurrent_double_playback:
  "{length (audios s), Suc (length (audios s))} \<subseteq>
     set (playing_ids (play_run [Play a, Play b, FetchOk 0, FetchOk 0] s))"
  by (cases "currentAudio s")
     (simp_all add: play_simps playing_ids_def nth_append Let_def)

text \<open>C29. The \<open>onended\<close> handler of an element that is not the current one
  still clears the fields: when such an element ends while the current one plays,
  the component shows nothing playing and has no handle on the element that is
  still playing.\<close>

theorem orphan_onended:
  assumes "currentAudio s = Some c" "a \<noteq> c" "a < length (audios s)" "a_status (audios s ! a) = APlaying"
    and "c < length (audios s)" "a_status (audios s ! c) = APlaying"
  shows "\<not> isPlaying (play_step (Ended a) s) \<and> currentAudio (play_step (Ended a) s) = None \<and>
         c \<in> set (playing_ids (play_step (Ended a) s))"
  using assms by (simp add: audio_ended_def playing_ids_def nth_list_update)

theorem orphan_onended_witness:
  "currentAudio (play_run [Play ''A'', Play ''B'', FetchOk 0, FetchOk 0] play_init) = Some 1 \<and>
   a_status (audios (play_run [Play ''A'', Play ''B'', FetchOk 0, FetchOk 0] play_init) ! 0) = APlaying \<and>
   \<not> isPlaying (play_step (Ended 0) (play_run [Play ''A'', Play ''B'', FetchOk 0, FetchOk 0] play_init))"
proof -
  let ?s = "play_run [Play ''A'', Play ''B'', FetchOk 0, FetchOk 0] play_init"
  have h1: "currentAudio ?s = Some 1" by (simp add: play_simps)
  have h2: "(0::nat) \<noteq> 1" by simp
  have h3: "0 < length (audios ?s)" and h4: "a_status (audios ?s ! 0) = APlaying"
    and h5: "1 < length (audios ?s)" and h6: "a_status (audios ?s ! 1) = APlaying"
    by (simp_all add: play_simps)
  show ?thesis using h1 h4 orphan_onended [OF h1 h2 h3 h4 h5 h6] by blast
qed

text \<open>C30. No object URL is ever released: in every reachable state the live
  URLs are exactly one per element ever created, stopped and finished ones
  included.\<close>

theorem obj_urls_never_revoked:
  "play_reach s \<Longrightarrow> obj_urls s = [0..<length (audios s)]"
  by (induction rule: play_reach.induct) (simp_all add: play_init_def obj_urls_step)

theorem obj_urls_never_revoked_witness:
  "play_reach (play_run [Play ''A'', FetchOk 0, Play ''B'', FetchOk 0] play_init) \<and>
   obj_urls (play_run [Play ''A'', FetchOk 0, Play ''B'', FetchOk 0] play_init) = [0, 1]"
proof -
  have r: "play_reach (play_run [Play ''A'', FetchOk 0, Play ''B'', FetchOk 0] play_init)"
    by (rule play_reach_run, rule play_reach.init)
  have l: "length (audios (play_run [Play ''A'', FetchOk 0, Play ''B'', FetchOk 0] play_init)) = 2"
    by (simp add: play_simps)
  show ?thesis using r l obj_urls_never_revoked [OF r] by (simp add: upt_rec)
qed


text \<open>C31. \<open>playTextToSpeech\<close> first stops the current element (it is paused,
  the fields are cleared) and then requests the audio of the new text.\<close>

theorem play_stops_current:
  assumes "currentAudio s = Some a"
  shows "playTextToSpeech t s =
           (s\<lparr>audios := (audios s)[a := (audios s ! a)\<lparr>a_status := APaused\<rparr>],
              currentAudio := None, isPlaying := False, pending := pending s @ [t]\<rparr>, getAudio t)"
  using assms by (simp add: playTextToSpeech_def)

theorem play_stops_current_witness:
  "currentAudio (play_run [Play ''A'', FetchOk 0] play_init) = Some 0 \<and>
   a_status (audios (fst (playTextToSpeech ''B'' (play_run [Play ''A'', FetchOk 0] play_init))) ! 0) = APaused"
proof -
  have h: "currentAudio (play_run [Play ''A'', FetchOk 0] play_init) = Some 0"
    by (simp add: play_simps)
  show ?thesis using h play_stops_current [OF h, of "''B''"]
    by (simp add: play_simps)
qed

text \<open>C32. A failed audio request creates no element and no URL: after
  \<open>play\<close> and the failure of its request, nothing is playing or current and the
  store holds what it held (with the previous element stopped).\<close>

theorem audio_fetch_error:
  assumes "play_reach s" "pending s = []"
  shows "\<not> isPlaying (play_run [Play t, FetchErr 0] s) \<and> currentAudio (play_run [Play t, FetchErr 0] s) = None \<and>
         length (audios (play_run [Play t, FetchErr 0] s)) = length (audios s) \<and>
         obj_urls (play_run [Play t, FetchErr 0] s) = obj_urls s \<and> pending (play_run [Play t, FetchErr 0] s) = []"
  using assms play_reach_play_inv [OF assms(1)]
  by (simp add: play_inv_def playTextToSpeech_def audio_error_def remove_nth_def split: option.splits)

theorem audio_fetch_error_witness:
  "play_reach (play_run [Play ''A'', FetchOk 0] play_init) \<and>
   pending (play_run [Play ''A'', FetchOk 0] play_init) = [] \<and>
   \<not> isPlaying (play_run [Play ''B'', FetchErr 0] (play_run [Play ''A'', FetchOk 0] play_init))"
proof -
  have r: "play_reach (play_run [Play ''A'', FetchOk 0] play_init)"
    by (rule play_reach_run, rule play_reach.init)
  have h: "pending (play_run [Play ''A'', FetchOk 0] play_init) = []"
    by (simp add: play_simps)
  show ?thesis using r h audio_fetch_error [OF r h, of "''B''"] by blast
qed

end
