(* ===== verification/Spec2Isabelle.thy ===== *)
theory Spec2Isabelle
  imports Chat Display Playback
begin

text \<open>
  \<^bold>\<open>A verification library for the Ladki Bahin chat front end.\<close>

  The program is the Angular chat page of \<open>src/Frontend\<close>: the component
  \<open>LoginComponent\<close> (\<open>src/Frontend/src/app/login/login.component.ts\<close>) keeps
  the conversation (the log \<open>messages\<close>, the input \<open>userMessage\<close>, the session
  id, the previous reply \<open>prevRes\<close> and its mode \<open>prevResMode\<close>, the
  \<open>isLoading\<close> flag and the UI toggles), sends each turn through
  \<open>ChatService\<close> (\<open>src/Frontend/src/app/services/chat.service.ts\<close>) as a
  multipart request, and turns the back end's answer into display text with the
  normalisation of its \<open>next\<close> callback (lines 120--180).

  \<^bold>\<open>Theories.\<close>
  \<^item> \<open>Prelude\<close>: the shared vocabulary (\<open>join_with\<close> for
    \<open>Array.join\<close>, decimal digits, \<open>remove_nth\<close> for an answered request)
    and generic lemmas on lists, prefixes and suffixes.
  \<^item> \<open>JsValue\<close>: the JavaScript values the code handles (\<open>jsval\<close>),
    \<open>typeof\<close>, truthiness, property read with its \<open>TypeError\<close> on
    \<open>null\<close>/\<open>undefined\<close> (\<open>get_prop\<close>), \<open>String(v)\<close> (\<open>js_String\<close>,
    with ECMAScript Number::toString) and \<open>JSON.stringify\<close>
    (\<open>JSON_stringify\<close>, with the own-property key order). These are language
    built-ins modelled from the ECMAScript specification.
  \<^item> \<open>JsString\<close>: \<open>String.prototype.trim\<close> (every Unicode white space and
    line terminator, as UTF-8 sequences) and \<open>startsWith\<close>.
  \<^item> \<open>JsonParse\<close>: \<open>JSON.parse\<close> as a recursive-descent parser over
    bytes, with escapes, \<open>\<bslash>u\<close> code units re-encoded in UTF-8, numbers as exact
    decimals. The parser runs on fuel: \<open>JSON_parse\<close> gives it
    \<open>Suc (length s)\<close>, enough because every step that recurses consumes a
    character (\<open>parse_fuel_enough\<close>), and more fuel changes nothing
    (\<open>parse_value_fuel_mono\<close>), so the bound does not change the language
    (\<open>JSON_parse_fuel_adequate\<close>); quoted strings read back.
  \<^item> \<open>Normalize\<close>: the answer normalisation of \<open>sendUserMessage\<close>'s
    \<open>next\<close> callback, lines 123--169, as \<open>parse_response_string\<close> (lines
    126--137), \<open>unwrap_inner\<close> (lines 147--159) and
    \<open>normalize_response\<close>; the result is \<open>Inl\<close> when the code would throw.
    Lemmas: it never throws (C1), replies read back through \<open>response\<close>
    and \<open>message\<close> (C2, C3), the parse step does not depend on the fuel
    (C12), and the behaviour where code and specification part: truthiness tests
    (C16), unconverted non-string values (C17), literal and malformed strings
    (C19, C20), a single level of unwrapping (C21).
  \<^item> \<open>ChatService\<close>: \<open>sendMessage\<close> and \<open>getAudio\<close> as request values
    (URL and body); optional form fields are appended when truthy.
  \<^item> \<open>Chat\<close>: the component state as the record \<open>chat_state\<close>, one
    definition per method (\<open>ngOnInit\<close>, \<open>generateSessionId\<close>,
    \<open>sendUserMessage\<close>, the callbacks \<open>chat_next\<close> and \<open>chat_error\<close>,
    \<open>handleQuickReply\<close>, \<open>resetSession\<close>, \<open>onFileSelected\<close>, the
    toggles, the \<open>documents\<close> list), and the page as an event system
    \<open>chat_sys\<close>: the state with the list of requests in flight; \<open>chat_step\<close>
    runs one event (a method called by the template, or the transport answering
    any in-flight request, in any order), \<open>chat_run\<close> a sequence,
    \<open>chat_reach\<close> the reachable states. Lemmas: the handlers' functional
    behaviour (C5--C9, C18, C22, C34), failure keeps the context (C4), the
    loading invariant over all reachable states (C10), the append-only log (C11),
    the page settles once every request is answered (C35), the interleavings the
    code does not guard against (C13, C14), and the session id (C15, C36).
  \<^item> \<open>Display\<close>: \<open>formatMessage\<close> (lines 253--261), with the global
    replace of \<open>/\*\*(.*?)\*\*/g\<close> as the regular-expression engine scans it
    (\<open>find_close\<close> is the lazy group, \<open>bold_replace\<close> the scan, terminating
    by the length of the rest) and the newline replace. Lemmas: the output on
    any text of plain pieces and marker pairs, which pins the lazy group, the
    global replace and the \<open><br>\<close> written for a newline (C24), a
    non-string argument throws (C25), the output is at most 7/4 of the input
    (C37).
  \<^item> \<open>Playback\<close>: \<open>currentAudio\<close>, \<open>isPlaying\<close> and
    \<open>playTextToSpeech\<close> with its callbacks (lines 224--252), over an explicit
    store of audio elements and their object URLs; \<open>play_step\<close> runs a call,
    the answer or failure of any pending audio request, or the end of any playing
    element, and \<open>play_reach\<close> / \<open>play_reach_seq\<close> are the reachable states
    without and with the discipline "play only when no audio request is pending".
    Lemmas: the fields agree with the store in every reachable state (C26), one
    playback at a time under the discipline (C27) and two without it from any
    state (C28), the orphan \<open>onended\<close> (C29), URLs never released (C30),
    \<open>play\<close> stops the current element (C31), a failed request creates nothing
    (C32).
  \<^item> This theory: properties that span the components: the conversation context
    threads into the next request (C23), and a non-string reply breaks
    rendering (C33).

  \<^bold>\<open>Choices.\<close> Strings are UTF-8 byte strings, so the Marathi texts are their
  encodings and \<open>trim\<close> strips whole encoded code points; UTF-16 surrogate pairs
  from \<open>\<bslash>u\<close> escapes are encoded one code unit at a time. Numbers are exact
  decimals, which are the doubles JavaScript computes for the JSON numbers with at
  most 15 significant digits. The random draw of \<open>generateSessionId\<close> is an
  argument (the printed \<open>Math.random().toString(36)\<close>). The transport and
  the audio hardware are the environment: they answer requests and end elements
  in any order, so the event systems quantify over every interleaving.

  \<^bold>\<open>Not modelled.\<close> The DOM and the template (\<open>scrollToBottom\<close>, the
  \<open>ViewChild\<close> elements, the click on the hidden file input, the reset of
  \<open>input.value\<close>), console logging, the Angular life cycle beyond
  \<open>ngOnInit\<close>, the rejection of \<open>Audio.play()\<close> by an autoplay policy, and
  the HTTP transport itself, which is the environment answering requests.
\<close>

subsection \<open>Context threading\<close>

text \<open>C23. The conversation context threads from one turn to the next: after a
  reply whose normalised text is \<open>b\<close>, the next text send carries \<open>b\<close>
  converted to a string as \<open>prev_res\<close> (when \<open>b\<close> is truthy) and the reply's
  \<open>mode\<close> as \<open>prev_res_mode\<close>.\<close>

theorem context_threading:
  assumes "inflight sys \<noteq> []" "\<not> is_nullish res"
    and "normalize_response (obj_get res ''response'') = Inr b" "js_trim u \<noteq> []"
  shows "form_field (last (inflight (chat_run [Respond 0 res, Input u, Send] sys))) ''prev_res'' =
           (if truthy b then Some (FStr (js_String b)) else None) \<and>
         form_field (last (inflight (chat_run [Respond 0 res, Input u, Send] sys))) ''prev_res_mode'' =
           (if truthy (obj_get res ''mode'') then Some (FStr (js_String (obj_get res ''mode''))) else None)"
  using assms js_trim_nonempty [OF assms(4)]
  by (simp add: chat_next_def get_prop_def sendUserMessage_def sendMessage_def send_effect_def
                form_field_def append_if_def Let_def)

theorem context_threading_witness:
  "inflight (chat_run [Input ''a'', Send] (chat_start ''0.5'')) \<noteq> [] \<and>
   \<not> is_nullish (JObj [(''response'', JStr ''ok''), (''mode'', JStr ''m'')]) \<and>
   normalize_response (obj_get (JObj [(''response'', JStr ''ok''), (''mode'', JStr ''m'')]) ''response'')
     = Inr (JStr ''ok'') \<and>
   js_trim ''b'' \<noteq> [] \<and>
   form_field (last (inflight (chat_run [Respond 0 (JObj [(''response'', JStr ''ok''), (''mode'', JStr ''m'')]),
       Input ''b'', Send] (chat_run [Input ''a'', Send] (chat_start ''0.5''))))) ''prev_res''
     = Some (FStr ''ok'')"
proof -
  have a: "js_trim ''a'' = ''a''" by code_simp
  have h1: "inflight (chat_run [Input ''a'', Send] (chat_start ''0.5'')) \<noteq> []"
    by (simp add: a chat_start_def sendUserMessage_def send_effect_def)
  have h2: "\<not> is_nullish (JObj [(''response'', JStr ''ok''), (''mode'', JStr ''m'')])"
    by (simp add: is_nullish_def)
  have h3: "normalize_response (obj_get (JObj [(''response'', JStr ''ok''), (''mode'', JStr ''m'')]) ''response'')
              = Inr (JStr ''ok'')"
    by code_simp
  have h4: "js_trim ''b'' \<noteq> []" by code_simp
  show ?thesis
    using h1 h2 h3 h4 context_threading [OF h1 h2 h3 h4] by simp
qed


text \<open>C33. A reply whose \<open>message\<close> is a truthy value that is not a string (a
  number, an array, an object) passes through the handler into the log
  unconverted, from any state with a request in flight, and rendering that entry
  with \<open>formatMessage\<close> throws a \<open>TypeError\<close>.\<close>

theorem nonstring_reply_breaks_render:
  assumes "inflight sys \<noteq> []" "obj_get res ''response'' = JObj ((''message'', v) # kvs)"
    and "truthy v" "typeof v \<noteq> ''string''"
  shows "msg_text (last (messages (comp (chat_run [Respond 0 res] sys)))) = v \<and>
         formatMessage (msg_text (last (messages (comp (chat_run [Respond 0 res] sys))))) = Inl TypeError"
proof -
  have res: "\<not> is_nullish res" using assms(2) by (cases res) (auto simp: js_simps)
  have n: "normalize_response (obj_get res ''response'') = Inr v"
    using assms(2,3) by (simp add: normalize_response_def parse_response_string_def)
  have f: "formatMessage v = Inl TypeError"
    using assms(3,4) by (cases v) (simp_all add: formatMessage_def)
  show ?thesis
    using assms(1) res n f by (simp add: chat_next_def js_simps bot_msg_def Let_def)
qed

theorem nonstring_reply_breaks_render_witness:
  "inflight (chat_run [Input ''a'', Send] (chat_start ''0.5'')) \<noteq> [] \<and>
   obj_get (JObj [(''response'', JObj [(''message'', JNum 42 0)])]) ''response'' = JObj [(''message'', JNum 42 0)] \<and>
   formatMessage (msg_text (last (messages (comp (chat_run [Respond 0 (JObj [(''response'', JObj [(''message'', JNum 42 0)])])]
      (chat_run [Input ''a'', Send] (chat_start ''0.5''))))))) = Inl TypeError"
proof -
  have a: "js_trim ''a'' = ''a''" by code_simp
  have h1: "inflight (chat_run [Input ''a'', Send] (chat_start ''0.5'')) \<noteq> []" by (simp add: a chat_simps)
  have h2: "obj_get (JObj [(''response'', JObj [(''message'', JNum 42 0)])]) ''response''
              = JObj [(''message'', JNum 42 0)]" by simp
  have h3: "truthy (JNum 42 0)" and h4: "typeof (JNum 42 0) \<noteq> ''string''" by simp_all
  show ?thesis using h1 h2 nonstring_reply_breaks_render [OF h1 h2 h3 h4] by blast
qed

end
